theory Spec2Isabelle
  imports Complex_Main
begin

section \<open>Values, exceptions and library collaborators\<close>

text \<open>
  The values that \<^verbatim>\<open>JsonOutputParser().parse\<close> can hand back, and that are passed around
  as \<^verbatim>\<open>previous_data\<close>, \<^verbatim>\<open>attributes\<close> and \<^verbatim>\<open>chunks_data\<close>: Python's rendering of JSON.
  \<open>JNull\<close> is \<^verbatim>\<open>None\<close>; a \<^verbatim>\<open>dict\<close> is an association list in insertion order (keys are
  taken to be distinct, as in a \<^verbatim>\<open>dict\<close>). Python floats are modelled by rationals;
  non-finite floats are left out.
\<close>

datatype json =
    JNull
  | JBool bool
  | JInt int
  | JFloat rat
  | JStr string
  | JArr "json list"
  | JObj "(string \<times> json) list"

text \<open>
  Python exceptions as values. \<open>LibraryError\<close> stands for whatever the chat model, the
  output parser or the text splitter raise themselves.
\<close>

datatype exn =
    ValueError string
  | TypeError
  | IndexError
  | KeyError string
  | AttributeError
  | ValidationError
  | LibraryError string

datatype message = SystemMessage string | HumanMessage string

datatype document = Document (page_content: string)

datatype markdown_converter = MarkdownConverter

text \<open>
  \<^verbatim>\<open>RecursiveCharacterTextSplitter(chunk_size=..., chunk_overlap=..., length_function=...)\<close>:
  the object is represented by the keyword arguments it was built from.
\<close>

record text_splitter =
  chunk_size :: int
  chunk_overlap :: int
  length_function :: "string \<Rightarrow> int"

text \<open>
  The chat model is opaque and may be stateful: its answer to a request is a function of
  the requests it has received before (oldest first) and of the request itself. It either
  raises or returns the \<^verbatim>\<open>content\<close> of its reply.
\<close>

type_synonym chat_model = "message list list \<Rightarrow> message list \<Rightarrow> exn + string"

text \<open>
  Library functions the code calls and whose code is not part of the repository:
  \<^verbatim>\<open>tiktoken.get_encoding("o200k_base").encode\<close>, \<^verbatim>\<open>text_splitter.create_documents\<close>,
  \<^verbatim>\<open>str\<close> of a \<^verbatim>\<open>Document\<close> (what \<^verbatim>\<open>str.format\<close> inserts for it), \<^verbatim>\<open>json.dumps\<close> and
  \<^verbatim>\<open>JsonOutputParser().parse\<close>.
\<close>

record lib =
  tiktoken_encode :: "string \<Rightarrow> nat list"
  create_documents :: "text_splitter \<Rightarrow> string list \<Rightarrow> exn + document list"
  document_str :: "document \<Rightarrow> string"
  json_dumps :: "json \<Rightarrow> string"
  parser_parse :: "string \<Rightarrow> exn + json"

subsection \<open>Python built-ins used by the code\<close>

text \<open>Truth value testing: \<^verbatim>\<open>not previous_data\<close> is \<open>\<not> truthy previous_data\<close>.\<close>

fun truthy :: "json \<Rightarrow> bool" where
  "truthy JNull = False"
| "truthy (JBool b) = b"
| "truthy (JInt i) = (i \<noteq> 0)"
| "truthy (JFloat r) = (r \<noteq> 0)"
| "truthy (JStr s) = (s \<noteq> [])"
| "truthy (JArr xs) = (xs \<noteq> [])"
| "truthy (JObj kvs) = (kvs \<noteq> [])"

text \<open>
  \<^verbatim>\<open>previous_data if isinstance(previous_data, list) else list(previous_data)\<close>: a list is
  kept, a dict gives its keys, a string its characters, anything else is not iterable.
\<close>

fun as_list :: "json \<Rightarrow> exn + json list" where
  "as_list (JArr xs) = Inr xs"
| "as_list (JObj kvs) = Inr (map (\<lambda>kv. JStr (fst kv)) kvs)"
| "as_list (JStr s) = Inr (map (\<lambda>c. JStr [c]) s)"
| "as_list _ = Inl TypeError"

text \<open>
  A format string as \<^verbatim>\<open>str.format\<close> reads it: literal text and named replacement
  fields. A field with no keyword argument raises \<^verbatim>\<open>KeyError\<close>, the leftmost one first.
\<close>

datatype seg = Lit string | Field string

type_synonym template = "seg list"

fun str_format :: "template \<Rightarrow> (string \<times> string) list \<Rightarrow> exn + string" where
  "str_format [] kwargs = Inr []"
| "str_format (Lit s # t) kwargs =
     (case str_format t kwargs of Inl e \<Rightarrow> Inl e | Inr r \<Rightarrow> Inr (s @ r))"
| "str_format (Field f # t) kwargs =
     (case map_of kwargs f of
        None \<Rightarrow> Inl (KeyError f)
      | Some v \<Rightarrow> (case str_format t kwargs of Inl e \<Rightarrow> Inl e | Inr r \<Rightarrow> Inr (v @ r)))"

text \<open>A triple-quoted block of text: every line is followed by a newline.\<close>

definition text_block :: "string list \<Rightarrow> string" where
  "text_block ls = concat (map (\<lambda>l. l @ ''\<newline>'') ls)"

section \<open>Prompt constants\<close>

definition SIMPLE_EXTRACTOR_PROMPT_TEMPLATE :: template where
  \<open>SIMPLE_EXTRACTOR_PROMPT_TEMPLATE =
    [Lit ''\<newline>Having following page content:\<newline>```\<newline>'',
     Field ''markdown'',
     Lit ''\<newline>```\<newline>\<newline>Return the following elements from the page content:\<newline>```\<newline>'',
     Field ''elements'',
     Lit ''\<newline>```\<newline>\<newline>Output json:\<newline>'']\<close>

definition TABULAR_EXTRACTOR_SYSTEM_PROMPT :: string where
  \<open>TABULAR_EXTRACTOR_SYSTEM_PROMPT = text_block
    ['''',
     ''Your goal is to find the elements from the webpage content and return them in json format.'',
     ''For example if user asks:'',
     ''Return the following elements from the page content:'',
     ''```'',
     ''{'',
     ''    "name": "name of the listing",'',
     ''    "price": "price of the listing"'',
     ''}'',
     ''```'',
     ''Make sure to return json with the list of corresponding values and their CSS selectors.'',
     ''Output json:'',
     ''```json'',
     ''['',
     ''{'',
     ''"name": {"value": "name1", "selector": "#item-1 .name"},'',
     ''"price": {"value": "100", "selector": "#item-1 .price"}'',
     ''},'',
     ''{'',
     ''"name": {"value": "name2", "selector": "#item-2 .name"},'',
     ''"price": {"value": "150", "selector": "#item-2 .price"}'',
     ''},'',
     ''{'',
     ''"name": {"value": "name3", "selector": "#item-3 .name"},'',
     ''"price": {"value": "300", "selector": "#item-3 .price"}'',
     ''}'',
     '']'',
     ''```'',
     '''',
     ''If users asks for a single field:'',
     ''Return the following elements from the page content:'',
     ''```'',
     ''{'',
     ''    "link": "link to the listing",'',
     ''}'',
     ''```'',
     ''Make sure to return json with only this field and its selector'',
     ''Output json:'',
     ''```json'',
     ''['',
     ''   {"link": {"value": "https://example.com/link1", "selector": ".item-1 a"}},'',
     ''{"link": {"value": "https://example.com/link2", "selector": ".item-2 a"}},'',
     ''{"link": {"value": "https://example.com/link3", "selector": ".item-3 a"}}'',
     '']'',
     ''```'',
     '''']\<close>

definition SYSTEM_MERGE_PROMPT_TEMPLATE :: string where
  \<open>SYSTEM_MERGE_PROMPT_TEMPLATE = text_block
    ['''',
     ''Your goal is to merge data extracted from different parts of the page into one json.'',
     ''Keep the original structure, but make sure to correctly merge data to not have duplicates, prefer rows with more data.'',
     '''',
     ''In case of conflicting values, take the data that is further from the boarder between the files.'',
     ''## Example: merging conflicting values'',
     ''```'',
     ''['',
     ''    {"name": "zero element", "price": "123"},'',
     ''    {"name": "first element", "price": "100"},'',
     ''    {"name": "second element", "price": "200"},'',
     ''    {"name": "third element", "price": "999"},'',
     '']'',
     ''```'',
     '''',
     ''and '',
     '''',
     ''```'',
     ''['',
     ''    {"name": "second element", "price": "123"},'',
     ''    {"name": "third element", "price": "400"},'',
     '']'',
     ''```'',
     '''',
     ''In the case above the "second element"'s price should be taken from the first json, cause it's further from the boarder'',
     ''between the files, while "third element"'s price should be taken from the second json. The final output should be:'',
     '''',
     ''Merged json:'',
     ''```'',
     ''['',
     ''    {"name": "zero element", "price": "123"},'',
     ''    {"name": "first element", "price": "100"},'',
     ''    {"name": "second element", "price": "200"},'',
     ''    {"name": "third element", "price": "400"},'',
     '']'',
     ''```'',
     '''',
     ''## Example: merging missing values'',
     ''```'',
     ''['',
     ''    {"name": "zero element", "price": "123"},'',
     ''    {"name": "first element", "price": "100"},'',
     ''    {"name": "second element", "price": "200"},'',
     ''    {"name": "third", "price": null},'',
     '']'',
     ''```'',
     '''',
     ''and '',
     '''',
     ''```'',
     ''['',
     ''    {"name": "second element", "price": "123"},'',
     ''    {"name": "third element", "price": "400"},'',
     ''    {"name": "fourth element", "price": "350"},'',
     '']'',
     ''```'',
     '''',
     ''In this case the "third element" should be taken from the second json, because it contains missing value for the "price"'',
     ''and fixed truncated name "third". The final output should be:'',
     '''',
     ''Merged json:'',
     ''```'',
     ''['',
     ''    {"name": "zero element", "price": "123"},'',
     ''    {"name": "first element", "price": "100"},'',
     ''    {"name": "second element", "price": "200"},'',
     ''    {"name": "third element", "price": "400"},'',
     ''    {"name": "fourth element", "price": "350"},'',
     '']'',
     ''```'',
     '''']\<close>

definition EXTRACTOR_MERGE_PROMPT_TEMPLATE :: template where
  \<open>EXTRACTOR_MERGE_PROMPT_TEMPLATE =
    [Lit ''\<newline>Elements requested by user:\<newline>```\<newline>'',
     Field ''elements'',
     Lit ''\<newline>```\<newline>\<newline>All jsons from different parts of the page:\<newline>'',
     Field ''jsons_list'',
     Lit ''\<newline>\<newline>Merged json:\<newline>'']\<close>

definition APPEND_TABULAR_EXTRACTOR_SYSTEM_PROMPT :: string where
  \<open>APPEND_TABULAR_EXTRACTOR_SYSTEM_PROMPT = text_block
    ['''',
     ''Your goal is to continue the sequence extracted from the previous chunk of the page by adding elements from the new page'',
     ''chunk. For each extracted field, you must extract the EXACT CSS selector from the HTML content that was used to find that element.'',
     ''DO NOT make up or guess selectors - only use what's present in the HTML.'',
     '''',
     ''Important rules for selectors:'',
     ''1. Use the most specific and accurate selector from the actual HTML'',
     ''2. Include all necessary parent elements to uniquely identify the element'',
     ''3. If you can't find a specific selector in the HTML, use null or empty string'',
     ''4. Include class names, IDs, and other attributes exactly as they appear in the HTML'',
     ''5. Pay attention to the actual HTML structure in the content'',
     '''',
     ''## Example: continue truncated json with selectors'',
     ''```json'',
     ''['',
     ''    {'',
     ''        "name": {'',
     ''            "value": "Product Name",'',
     ''            "selector": "div.product__title > h1.product-single__title"'',
     ''        },'',
     ''        "price": {'',
     ''            "value": "25.00",'',
     ''            "selector": "span.price-item.price-item--regular"'',
     ''        },'',
     ''        "description": {'',
     ''            "value": "Product description text",'',
     ''            "selector": "div.product-single__description.rte"'',
     ''        }'',
     ''    }'',
     '']'',
     ''```'',
     '''',
     ''Only extract selectors that you can verify in the provided HTML content.'',
     ''If you cannot find a proper selector, use null rather than making one up.'']\<close>

definition APPEND_EXTRACTOR_PROMPT_TEMPLATE :: template where
  \<open>APPEND_EXTRACTOR_PROMPT_TEMPLATE =
    [Lit ''\<newline>Fill missing values, fix truncated values and continue this sequence:\<newline>```\<newline>'',
     Field ''previous_data'',
     Lit ''\<newline>```\<newline>\<newline>The current truncated page chunk:\<newline>---\<newline>'',
     Field ''markdown'',
     Lit ''\<newline>---\<newline>\<newline>You are looking for the following elements from the truncated page chunk:\<newline>```\<newline>'',
     Field ''elements'',
     Lit ''\<newline>```\<newline>\<newline>For each element, also identify and return the CSS selector that can be used to locate it.\<newline>Output json with fixed previous sequence, new rows, and CSS selectors:\<newline>'']\<close>

section \<open>The extractor object and the world\<close>

text \<open>
  An instance of \<^verbatim>\<open>ChunksTabularExtractor\<close>: the class attributes it reads through
  \<^verbatim>\<open>self\<close> and the attributes set by the constructors. \<open>system_prompt\<close> and
  \<open>prompt_template\<close> may be \<^verbatim>\<open>None\<close> (the base class \<^verbatim>\<open>Extractor\<close> has
  \<^verbatim>\<open>system_prompt = None\<close>, and \<^verbatim>\<open>run\<close> tests both). \<open>chunks_data\<close> is the only
  attribute assigned after construction.
\<close>

record extractor =
  system_prompt :: "string option"
  prompt_template :: "template option"
  system_merge_prompt :: string
  prompt_merge_template :: template
  append_system_prompt :: string
  append_prompt_template :: template
  model :: chat_model
  converter :: markdown_converter
  text_splitter :: text_splitter
  chunks_data :: "json list option"

text \<open>\<^verbatim>\<open>overlap_factor = 3\<close>, a class attribute.\<close>

definition overlap_factor :: int where
  "overlap_factor = 3"

text \<open>
  What a call leaves outside the object: the requests sent to the chat model, oldest
  first, each tagged with the method that sent it, and the lines printed
  (\<^verbatim>\<open>Chunk {i + 1} token count: {token_count}\<close>, kept as the two numbers).
\<close>

datatype caller = Extract | Merge

datatype stdout_line = ChunkTokenCount nat int

record world =
  calls :: "(caller \<times> message list) list"
  stdout :: "stdout_line list"

text \<open>\<^verbatim>\<open>output = await self.model.ainvoke(messages)\<close>, then \<^verbatim>\<open>output.content\<close>.\<close>

definition ainvoke :: "extractor \<Rightarrow> caller \<Rightarrow> message list \<Rightarrow> world \<Rightarrow> (exn + string) \<times> world" where
  "ainvoke self who messages w =
     (model self (map snd (calls w)) messages, w\<lparr>calls := calls w @ [(who, messages)]\<rparr>)"

section \<open>Construction\<close>

text \<open>\<^verbatim>\<open>count_tokens\<close>, the default token counter defined inside \<^verbatim>\<open>__init__\<close>.\<close>

definition count_tokens :: "lib \<Rightarrow> string \<Rightarrow> int" where
  "count_tokens l text = int (length (tiktoken_encode l text))"

text \<open>\<^verbatim>\<open>ChunksTabularExtractor.__init__\<close>, with \<^verbatim>\<open>Extractor.__init__\<close> inlined.\<close>

definition ChunksTabularExtractor_init ::
  "lib \<Rightarrow> chat_model \<Rightarrow> int \<Rightarrow> (string \<Rightarrow> int) option \<Rightarrow> markdown_converter option \<Rightarrow> extractor" where
  "ChunksTabularExtractor_init l m chunk_size_arg token_counter conv =
     \<lparr> system_prompt = Some TABULAR_EXTRACTOR_SYSTEM_PROMPT,
       prompt_template = Some SIMPLE_EXTRACTOR_PROMPT_TEMPLATE,
       system_merge_prompt = SYSTEM_MERGE_PROMPT_TEMPLATE,
       prompt_merge_template = EXTRACTOR_MERGE_PROMPT_TEMPLATE,
       append_system_prompt = APPEND_TABULAR_EXTRACTOR_SYSTEM_PROMPT,
       append_prompt_template = APPEND_EXTRACTOR_PROMPT_TEMPLATE,
       model = m,
       converter = (case conv of None \<Rightarrow> MarkdownConverter | Some c \<Rightarrow> c),
       text_splitter =
         \<lparr> chunk_size = chunk_size_arg,
           chunk_overlap = chunk_size_arg div overlap_factor,
           length_function = (case token_counter of None \<Rightarrow> count_tokens l | Some f \<Rightarrow> f) \<rparr>,
       chunks_data = None \<rparr>"

section \<open>Single-window extraction\<close>

text \<open>
  \<^verbatim>\<open>previous_data[-cutoff:]\<close> with
  \<^verbatim>\<open>cutoff = max(1, math.ceil(len(previous_data) / self.overlap_factor))\<close>: the last
  \<open>cutoff\<close> elements, all of them when there are fewer. The float quotient is taken as
  exact, which it is for every list that fits in memory.
\<close>

definition cutoff :: "json list \<Rightarrow> int" where
  "cutoff previous_data = max 1 \<lceil>real (length previous_data) / real_of_int overlap_factor\<rceil>"

definition tail_slice :: "json list \<Rightarrow> json list" where
  "tail_slice previous_data = drop (length previous_data - nat (cutoff previous_data)) previous_data"

text \<open>
  The branches of \<^verbatim>\<open>extract\<close> that build \<^verbatim>\<open>human_msg\<close>, named so that a statement can
  say which one was taken.
\<close>

datatype branch = Fresh | Continuation | EmptyTail

text \<open>The first half of \<^verbatim>\<open>extract\<close>: \<^verbatim>\<open>human_msg\<close> and the branch that produced it.\<close>

definition human_msg :: "extractor \<Rightarrow> lib \<Rightarrow> string \<Rightarrow> json \<Rightarrow> json \<Rightarrow> exn + branch \<times> string" where
  "human_msg self l markdown attributes previous_data =
     (let elements = json_dumps l attributes in
      if \<not> truthy previous_data then
        (case prompt_template self of
           None \<Rightarrow> Inl AttributeError
         | Some t \<Rightarrow>
             (case str_format t [(''markdown'', markdown), (''elements'', elements)] of
                Inl e \<Rightarrow> Inl e
              | Inr h \<Rightarrow> Inr (Fresh, h)))
      else
        (case as_list previous_data of
           Inl e \<Rightarrow> Inl e
         | Inr previous_list \<Rightarrow>
             (let (b, previous_tail) =
                    (if length previous_list > 0
                     then (Continuation, json_dumps l (JArr (tail_slice previous_list)))
                     else (EmptyTail, ''[]''))
              in case str_format (append_prompt_template self)
                        [(''markdown'', markdown), (''elements'', elements),
                         (''previous_data'', previous_tail)] of
                   Inl e \<Rightarrow> Inl e
                 | Inr h \<Rightarrow> Inr (b, h))))"

text \<open>\<^verbatim>\<open>ChunksTabularExtractor.extract\<close>.\<close>

definition extract_chunk ::
  "extractor \<Rightarrow> lib \<Rightarrow> string \<Rightarrow> json \<Rightarrow> json \<Rightarrow> world \<Rightarrow> (exn + json) \<times> world" where
  "extract_chunk self l markdown attributes previous_data w =
     (case human_msg self l markdown attributes previous_data of
        Inl e \<Rightarrow> (Inl e, w)
      | Inr (b, h) \<Rightarrow>
          (case system_prompt self of
             None \<Rightarrow> (Inl ValidationError, w)
           | Some sp \<Rightarrow>
               (case ainvoke self Extract [SystemMessage sp, HumanMessage h] w of
                  (Inl e, w') \<Rightarrow> (Inl e, w')
                | (Inr output, w') \<Rightarrow> (parser_parse l output, w'))))"

section \<open>Merging\<close>

text \<open>
  \<^verbatim>\<open>ChunksTabularExtractor.merge_all_data\<close>. \<open>all_data\<close> is \<^verbatim>\<open>self.chunks_data\<close> as
  \<^verbatim>\<open>run\<close> passes it; iterating over \<^verbatim>\<open>None\<close> raises \<^verbatim>\<open>TypeError\<close>.
\<close>

definition merge_all_data ::
  "extractor \<Rightarrow> lib \<Rightarrow> json list option \<Rightarrow> json \<Rightarrow> world \<Rightarrow> (exn + json) \<times> world" where
  "merge_all_data self l all_data attributes w =
     (let elements = json_dumps l attributes in
      case all_data of
        None \<Rightarrow> (Inl TypeError, w)
      | Some ds \<Rightarrow>
          (let json_list = concat (map (\<lambda>d. ''``` \<newline>'' @ json_dumps l d @ ''\<newline> ```\<newline>'') ds) in
           case str_format (prompt_merge_template self)
                  [(''elements'', elements), (''jsons_list'', json_list)] of
             Inl e \<Rightarrow> (Inl e, w)
           | Inr h \<Rightarrow>
               (case ainvoke self Merge [SystemMessage (system_merge_prompt self), HumanMessage h] w of
                  (Inl e, w') \<Rightarrow> (Inl e, w')
                | (Inr output, w') \<Rightarrow> (parser_parse l output, w'))))"

section \<open>The orchestrator\<close>

text \<open>The loop that prints the token count of every chunk, \<open>i\<close> counting from 0.\<close>

fun print_token_counts :: "extractor \<Rightarrow> nat \<Rightarrow> document list \<Rightarrow> world \<Rightarrow> world" where
  "print_token_counts self i [] w = w"
| "print_token_counts self i (chunk # rest) w =
     print_token_counts self (Suc i) rest
       (w\<lparr>stdout := stdout w @
            [ChunkTokenCount (i + 1) (length_function (text_splitter self) (page_content chunk))]\<rparr>)"

text \<open>
  The loop over the chunks of a multi-window run. \<open>chunk_data\<close> is the loop variable of
  that name; \<^verbatim>\<open>self.chunks_data.append\<close> on \<^verbatim>\<open>None\<close> raises \<^verbatim>\<open>AttributeError\<close>. The
  chunk itself, a \<^verbatim>\<open>Document\<close>, is passed as \<^verbatim>\<open>markdown\<close>, so \<^verbatim>\<open>str.format\<close> inserts its
  \<^verbatim>\<open>str\<close>.
\<close>

fun extract_loop ::
  "extractor \<Rightarrow> lib \<Rightarrow> json \<Rightarrow> document list \<Rightarrow> json \<Rightarrow> world \<Rightarrow> (exn + json) \<times> extractor \<times> world" where
  "extract_loop self l attributes [] chunk_data w = (Inr chunk_data, self, w)"
| "extract_loop self l attributes (element # rest) chunk_data w =
     (case extract_chunk self l (document_str l element) attributes chunk_data w of
        (Inl e, w') \<Rightarrow> (Inl e, self, w')
      | (Inr d, w') \<Rightarrow>
          (case chunks_data self of
             None \<Rightarrow> (Inl AttributeError, self, w')
           | Some ds \<Rightarrow>
               extract_loop (self\<lparr>chunks_data := Some (ds @ [d])\<rparr>) l attributes rest d w'))"

text \<open>\<^verbatim>\<open>ChunksTabularExtractor.run\<close>.\<close>

definition run ::
  "extractor \<Rightarrow> lib \<Rightarrow> string \<Rightarrow> json \<Rightarrow> world \<Rightarrow> (exn + json) \<times> extractor \<times> world" where
  "run self l content attributes w =
     (if system_prompt self = None then
        (Inl (ValueError ''system_prompt is not defined for this extractor''), self, w)
      else if prompt_template self = None then
        (Inl (ValueError ''prompt_template is not defined for this extractor''), self, w)
      else
        (case create_documents l (text_splitter self) [content] of
           Inl e \<Rightarrow> (Inl e, self, w)
         | Inr chunks \<Rightarrow>
             (let w1 = print_token_counts self 0 chunks w in
              if length chunks > 1 then
                (case extract_loop (self\<lparr>chunks_data := Some []\<rparr>) l attributes chunks JNull w1 of
                   (Inl e, self', w') \<Rightarrow> (Inl e, self', w')
                 | (Inr _, self', w') \<Rightarrow>
                     (case merge_all_data self' l (chunks_data self') attributes w' of
                        (r, w'') \<Rightarrow> (r, self', w'')))
              else
                (case chunks of
                   [] \<Rightarrow> (Inl IndexError, self, w1)
                 | c # _ \<Rightarrow>
                     (case extract_chunk self l (document_str l c) attributes JNull w1 of
                        (r, w') \<Rightarrow> (r, self, w'))))))"

section \<open>Vocabulary of the statements\<close>

text \<open>
  What the chat model's reply to \<open>messages\<close> parses to when the request is sent after
  the requests in \<open>sent\<close>: the last four lines of \<^verbatim>\<open>extract\<close> and of
  \<^verbatim>\<open>merge_all_data\<close>, read as a value.
\<close>

definition reply :: "extractor \<Rightarrow> lib \<Rightarrow> (caller \<times> message list) list \<Rightarrow> message list \<Rightarrow> exn + json" where
  "reply self l sent messages =
     (case model self (map snd sent) messages of
        Inl e \<Rightarrow> Inl e
      | Inr output \<Rightarrow> parser_parse l output)"

text \<open>The \<^verbatim>\<open>jsons_list\<close> text that \<^verbatim>\<open>merge_all_data\<close> builds from the partial results.\<close>

definition jsons_list :: "lib \<Rightarrow> json list \<Rightarrow> string" where
  "jsons_list l ds = concat (map (\<lambda>d. ''``` \<newline>'' @ json_dumps l d @ ''\<newline> ```\<newline>'') ds)"

section \<open>Deterministic collaborators for concrete runs\<close>

text \<open>
  A chat model that answers its \<open>n\<close>-th request with the \<open>n\<close>-th entry of a script, a
  parser that looks the completion up in a table, a serialiser, and a splitter that
  makes one chunk of every character of the document.
\<close>

definition scripted_model :: "(exn + string) list \<Rightarrow> chat_model" where
  "scripted_model replies history messages =
     (if length history < length replies then replies ! length history
      else Inl (LibraryError ''no reply left''))"

definition table_parse :: "(string \<times> json) list \<Rightarrow> string \<Rightarrow> exn + json" where
  "table_parse table s =
     (case map_of table s of
        None \<Rightarrow> Inl (LibraryError ''OutputParserException'')
      | Some j \<Rightarrow> Inr j)"

fun stub_dumps :: "json \<Rightarrow> string" where
  "stub_dumps JNull = ''null''"
| "stub_dumps (JBool b) = (if b then ''true'' else ''false'')"
| "stub_dumps (JInt i) = ''<int>''"
| "stub_dumps (JFloat r) = ''<float>''"
| "stub_dumps (JStr s) = s"
| "stub_dumps (JArr xs) = ''['' @ concat (map (\<lambda>x. stub_dumps x @ '','') xs) @ '']''"
| "stub_dumps (JObj kvs) =
     ''{'' @ concat (map (\<lambda>kv. fst kv @ '':'' @ stub_dumps (snd kv) @ '','') kvs) @ ''}''"

definition stub_lib :: "(string \<times> json) list \<Rightarrow> lib" where
  "stub_lib table =
     \<lparr> tiktoken_encode = map of_char,
       create_documents = (\<lambda>ts texts. Inr (map (\<lambda>c. Document [c]) (concat texts))),
       document_str = page_content,
       json_dumps = stub_dumps,
       parser_parse = table_parse table \<rparr>"

definition w0 :: world where
  "w0 = \<lparr> calls = [], stdout = [] \<rparr>"

text \<open>A schema, some records, and the completions the table parser understands.\<close>

definition demo_attributes :: json where
  "demo_attributes = JObj [(''name'', JStr ''the name''), (''price'', JStr ''the price'')]"

definition row :: "string \<Rightarrow> json \<Rightarrow> json" where
  "row name price = JObj [(''name'', JStr name), (''price'', price)]"

definition demo_table :: "(string \<times> json) list" where
  "demo_table =
     [(''A'', JArr [row ''zero'' (JStr ''123'')]),
      (''B'', JArr [row ''third'' JNull]),
      (''C'', JArr [row ''third'' (JStr ''400'')]),
      (''D'', JArr [row ''zero'' (JStr ''123''), row ''first'' (JStr ''100''),
                    row ''second'' (JStr ''200''), row ''third'' (JStr ''999'')]),
      (''E'', JArr [])]"

definition demo_lib :: lib where
  "demo_lib = stub_lib demo_table"

definition demo_extractor :: "(exn + string) list \<Rightarrow> extractor" where
  "demo_extractor script =
     ChunksTabularExtractor_init demo_lib (scripted_model script) 100000 None None"

section \<open>Auxiliary facts\<close>

text \<open>
  The ceiling of a third, in natural-number arithmetic, and the size of the slice.
\<close>

lemma ceiling_third: "\<lceil>real n / 3\<rceil> = int ((n + 2) div 3)"
proof -
  have "\<lceil>real n / 3\<rceil> = \<lceil>of_int (int n) / (of_int 3 :: real)\<rceil>" by simp
  also have "\<dots> = - (- int n div 3)" by (rule ceiling_divide_eq_div)
  also have "\<dots> = int ((n + 2) div 3)" by presburger
  finally show ?thesis .
qed

lemma cutoff_eq: "cutoff xs = max 1 (int ((length xs + 2) div 3))"
  by (simp add: cutoff_def overlap_factor_def ceiling_third)

lemma cutoff_nat: "nat (cutoff xs) = max 1 ((length xs + 2) div 3)"
  unfolding cutoff_eq by simp

lemma third_le: "0 < (n::nat) \<Longrightarrow> max 1 ((n + 2) div 3) \<le> n"
  unfolding max_def by presburger

lemma third_less: "2 \<le> (n::nat) \<Longrightarrow> max 1 ((n + 2) div 3) < n"
  unfolding max_def by presburger

lemma length_tail_slice: "xs \<noteq> [] \<Longrightarrow> length (tail_slice xs) = max 1 ((length xs + 2) div 3)"
proof -
  assume "xs \<noteq> []"
  then have pos: "0 < length xs" by simp
  have "max 1 ((length xs + 2) div 3) \<le> length xs"
    using pos by (rule third_le)
  then show ?thesis
    unfolding tail_slice_def cutoff_nat by simp
qed

text \<open>
  The class's own fresh-prompt template has exactly the two fields \<^verbatim>\<open>extract\<close> supplies.
\<close>

lemma simple_template_formats:
  "str_format SIMPLE_EXTRACTOR_PROMPT_TEMPLATE [(''markdown'', md), (''elements'', el)] =
     Inr (''\<newline>Having following page content:\<newline>```\<newline>'' @ md @
          ''\<newline>```\<newline>\<newline>Return the following elements from the page content:\<newline>```\<newline>'' @ el @
          ''\<newline>```\<newline>\<newline>Output json:\<newline>'')"
  by (simp add: SIMPLE_EXTRACTOR_PROMPT_TEMPLATE_def)

text \<open>
  No method reads \<^verbatim>\<open>self.chunks_data\<close> except the loop that appends to it, and the loop
  changes nothing else on the object.
\<close>

lemma human_msg_chunks_data [simp]:
  "human_msg (self\<lparr>chunks_data := d\<rparr>) l md a pd = human_msg self l md a pd"
  by (simp add: human_msg_def Let_def split: option.splits sum.splits prod.splits)

lemma ainvoke_chunks_data [simp]:
  "ainvoke (self\<lparr>chunks_data := d\<rparr>) who msgs w = ainvoke self who msgs w"
  by (simp add: ainvoke_def)

lemma extract_chunk_chunks_data [simp]:
  "extract_chunk (self\<lparr>chunks_data := d\<rparr>) l md a pd w = extract_chunk self l md a pd w"
  by (simp add: extract_chunk_def split: option.splits sum.splits prod.splits)

lemma print_token_counts_chunks_data [simp]:
  "print_token_counts (self\<lparr>chunks_data := d\<rparr>) i chunks w = print_token_counts self i chunks w"
  by (induction chunks arbitrary: i w) simp_all

lemma extract_loop_frame:
  "extract_loop self l a chunks prev w = (r, self', w') \<Longrightarrow> self'\<lparr>chunks_data := x\<rparr> = self\<lparr>chunks_data := x\<rparr>"
proof (induction chunks arbitrary: self prev w)
  case Nil
  then show ?case by simp
next
  case (Cons element rest)
  then show ?case
    by (fastforce split: prod.splits sum.splits option.splits)
qed

lemma reply_chunks_data [simp]:
  "reply (self\<lparr>chunks_data := d\<rparr>) l sent msgs = reply self l sent msgs"
  by (simp add: reply_def)

lemma print_token_counts_calls [simp]:
  "calls (print_token_counts self i chunks w) = calls w"
  by (induction chunks arbitrary: i w) simp_all

text \<open>
  What one extraction leaves behind: at most one request, tagged \<open>Extract\<close>; exactly one,
  answered and parsed, when it returns a result.
\<close>

lemma extract_chunk_Inr:
  assumes "extract_chunk self l md a pd w = (Inr d, w')"
  shows "\<exists>sp b h. system_prompt self = Some sp \<and> human_msg self l md a pd = Inr (b, h)
      \<and> w' = w\<lparr>calls := calls w @ [(Extract, [SystemMessage sp, HumanMessage h])]\<rparr>
      \<and> reply self l (calls w) [SystemMessage sp, HumanMessage h] = Inr d"
proof -
  obtain b h where hm: "human_msg self l md a pd = Inr (b, h)"
    using assms by (cases "human_msg self l md a pd") (auto simp add: extract_chunk_def)
  obtain sp where sp: "system_prompt self = Some sp"
    using assms hm by (cases "system_prompt self") (auto simp add: extract_chunk_def)
  let ?m = "[SystemMessage sp, HumanMessage h]"
  obtain content where out: "model self (map snd (calls w)) ?m = Inr content"
    using assms hm sp
    by (cases "model self (map snd (calls w)) ?m") (auto simp add: extract_chunk_def ainvoke_def)
  have "w' = w\<lparr>calls := calls w @ [(Extract, ?m)]\<rparr>" and "parser_parse l content = Inr d"
    using assms hm sp out by (auto simp add: extract_chunk_def ainvoke_def)
  then show ?thesis
    using hm sp out by (simp add: reply_def)
qed

lemma extract_chunk_world:
  assumes "extract_chunk self l md a pd w = (r, w')"
  shows "w' = w \<or> (\<exists>m. w' = w\<lparr>calls := calls w @ [(Extract, m)]\<rparr>)"
  using assms
  by (auto simp add: extract_chunk_def ainvoke_def
           split: sum.splits option.splits prod.splits)

text \<open>
  The loop over a list of chunks is the loop over a prefix followed by the loop over the rest.
\<close>

lemma extract_loop_append:
  "extract_loop self l a (xs @ ys) prev w =
     (case extract_loop self l a xs prev w of
        (Inl e, self', w') \<Rightarrow> (Inl e, self', w')
      | (Inr p, self', w') \<Rightarrow> extract_loop self' l a ys p w')"
  by (induction xs arbitrary: self prev w)
     (simp_all split: prod.splits sum.splits option.splits)

text \<open>
  A loop that finishes has sent one request per chunk, in order, each built from the
  result of the one before, and has appended the results in that order.
\<close>

lemma extract_loop_success:
  assumes "extract_loop self l a chunks prev w = (Inr final, self', w')"
    and "system_prompt self = Some sp" and "chunks_data self = Some ds"
  shows "\<exists>rs new. length rs = length chunks \<and> length new = length chunks
     \<and> self' = self\<lparr>chunks_data := Some (ds @ rs)\<rparr>
     \<and> final = last (prev # rs)
     \<and> w' = w\<lparr>calls := calls w @ new\<rparr>
     \<and> (\<forall>i<length chunks. \<exists>b h.
           human_msg self l (document_str l (chunks ! i)) a ((prev # rs) ! i) = Inr (b, h)
           \<and> new ! i = (Extract, [SystemMessage sp, HumanMessage h])
           \<and> reply self l (calls w @ take i new) [SystemMessage sp, HumanMessage h] = Inr (rs ! i))"
  using assms
proof (induction chunks arbitrary: self prev w ds)
  case Nil
  then have "self' = self" and "w' = w" and "final = prev" by simp_all
  moreover have "self\<lparr>chunks_data := Some (ds @ [])\<rparr> = self"
    using Nil.prems(3) by (cases self) simp
  ultimately show ?case by simp
next
  case (Cons element rest)
  obtain r w1 where step: "extract_chunk self l (document_str l element) a prev w = (r, w1)"
    by (cases "extract_chunk self l (document_str l element) a prev w")
  obtain d where r: "r = Inr d"
    using Cons.prems(1) step by (cases r) simp_all
  let ?self2 = "self\<lparr>chunks_data := Some (ds @ [d])\<rparr>"
  have rest: "extract_loop ?self2 l a rest d w1 = (Inr final, self', w')"
    using Cons.prems(1) step r Cons.prems(3) by simp
  obtain b0 h0 where hm0: "human_msg self l (document_str l element) a prev = Inr (b0, h0)"
    and w1: "w1 = w\<lparr>calls := calls w @ [(Extract, [SystemMessage sp, HumanMessage h0])]\<rparr>"
    and rp0: "reply self l (calls w) [SystemMessage sp, HumanMessage h0] = Inr d"
    using extract_chunk_Inr [OF step [unfolded r]] Cons.prems(2) by auto
  have "system_prompt ?self2 = Some sp" and "chunks_data ?self2 = Some (ds @ [d])"
    using Cons.prems(2) by simp_all
  from Cons.IH [OF rest this]
  obtain rs new where lrs: "length rs = length rest" and lnew: "length new = length rest"
    and self': "self' = ?self2\<lparr>chunks_data := Some ((ds @ [d]) @ rs)\<rparr>"
    and final: "final = last (d # rs)"
    and w': "w' = w1\<lparr>calls := calls w1 @ new\<rparr>"
    and each: "\<forall>i<length rest. \<exists>b h.
           human_msg ?self2 l (document_str l (rest ! i)) a ((d # rs) ! i) = Inr (b, h)
           \<and> new ! i = (Extract, [SystemMessage sp, HumanMessage h])
           \<and> reply ?self2 l (calls w1 @ take i new) [SystemMessage sp, HumanMessage h] = Inr (rs ! i)"
    by blast
  let ?c0 = "(Extract, [SystemMessage sp, HumanMessage h0])"
  have each': "\<exists>b h.
           human_msg self l (document_str l ((element # rest) ! i)) a ((prev # d # rs) ! i) = Inr (b, h)
           \<and> (?c0 # new) ! i = (Extract, [SystemMessage sp, HumanMessage h])
           \<and> reply self l (calls w @ take i (?c0 # new)) [SystemMessage sp, HumanMessage h] = Inr ((d # rs) ! i)"
    if "i < length (element # rest)" for i
  proof (cases i)
    case 0
    then show ?thesis using hm0 rp0 by simp
  next
    case (Suc j)
    then have "j < length rest" using that by simp
    with each obtain b h where
      "human_msg ?self2 l (document_str l (rest ! j)) a ((d # rs) ! j) = Inr (b, h)"
      "new ! j = (Extract, [SystemMessage sp, HumanMessage h])"
      "reply ?self2 l (calls w1 @ take j new) [SystemMessage sp, HumanMessage h] = Inr (rs ! j)"
      by blast
    then show ?thesis using Suc w1 by simp
  qed
  have "length (d # rs) = length (element # rest)" "length (?c0 # new) = length (element # rest)"
    using lrs lnew by simp_all
  moreover have "self' = self\<lparr>chunks_data := Some (ds @ d # rs)\<rparr>"
    using self' by simp
  moreover have "final = last (prev # d # rs)"
    using final by simp
  moreover have "w' = w\<lparr>calls := calls w @ ?c0 # new\<rparr>"
    using w' w1 by simp
  ultimately show ?case using each' by blast
qed

text \<open>
  A merge that returns a result has sent one request and returns what its reply parses to.
\<close>

lemma merge_all_data_Inr:
  assumes "merge_all_data self l (Some rs) a w = (Inr out, w')"
  shows "\<exists>hm. str_format (prompt_merge_template self)
                 [(''elements'', json_dumps l a), (''jsons_list'', jsons_list l rs)] = Inr hm
      \<and> w' = w\<lparr>calls := calls w @ [(Merge, [SystemMessage (system_merge_prompt self), HumanMessage hm])]\<rparr>
      \<and> reply self l (calls w) [SystemMessage (system_merge_prompt self), HumanMessage hm] = Inr out"
proof -
  let ?f = "str_format (prompt_merge_template self)
              [(''elements'', json_dumps l a), (''jsons_list'', jsons_list l rs)]"
  obtain hm where hm: "?f = Inr hm"
    using assms by (cases ?f) (auto simp add: merge_all_data_def jsons_list_def)
  let ?m = "[SystemMessage (system_merge_prompt self), HumanMessage hm]"
  obtain content where out: "model self (map snd (calls w)) ?m = Inr content"
    using assms hm
    by (cases "model self (map snd (calls w)) ?m")
       (auto simp add: merge_all_data_def jsons_list_def ainvoke_def)
  have "w' = w\<lparr>calls := calls w @ [(Merge, ?m)]\<rparr>" and "parser_parse l content = Inr out"
    using assms hm out by (auto simp add: merge_all_data_def jsons_list_def ainvoke_def)
  then show ?thesis
    using hm out by (simp add: reply_def)
qed

text \<open>
  A multi-window run that returns a result: the loop, then the merge.
\<close>

lemma run_multi_success:
  assumes sp: "system_prompt self = Some sp" and pt: "prompt_template self \<noteq> None"
    and cd: "create_documents l (text_splitter self) [content] = Inr chunks"
    and multi: "1 < length chunks"
    and ok: "run self l content a w = (Inr out, self', w')"
  shows "\<exists>rs new hm. length rs = length chunks \<and> length new = length chunks
     \<and> self' = self\<lparr>chunks_data := Some rs\<rparr>
     \<and> w' = (print_token_counts self 0 chunks w)
              \<lparr>calls := calls w @ new @
                 [(Merge, [SystemMessage (system_merge_prompt self), HumanMessage hm])]\<rparr>
     \<and> (\<forall>i<length chunks. \<exists>b h.
           human_msg self l (document_str l (chunks ! i)) a ((JNull # rs) ! i) = Inr (b, h)
           \<and> new ! i = (Extract, [SystemMessage sp, HumanMessage h])
           \<and> reply self l (calls w @ take i new) [SystemMessage sp, HumanMessage h] = Inr (rs ! i))
     \<and> str_format (prompt_merge_template self)
           [(''elements'', json_dumps l a), (''jsons_list'', jsons_list l rs)] = Inr hm
     \<and> reply self l (calls w @ new) [SystemMessage (system_merge_prompt self), HumanMessage hm] = Inr out"
proof -
  let ?self0 = "self\<lparr>chunks_data := Some []\<rparr>"
  let ?w1 = "print_token_counts self 0 chunks w"
  obtain r self1 w2 where loop: "extract_loop ?self0 l a chunks JNull ?w1 = (r, self1, w2)"
    by (cases "extract_loop ?self0 l a chunks JNull ?w1")
  obtain final where r: "r = Inr final"
    using ok sp pt cd multi loop by (cases r) (simp_all add: run_def)
  have "system_prompt ?self0 = Some sp" and "chunks_data ?self0 = Some []"
    using sp by simp_all
  from extract_loop_success [OF loop [unfolded r] this]
  obtain rs new where lrs: "length rs = length chunks" and lnew: "length new = length chunks"
    and self1: "self1 = self\<lparr>chunks_data := Some rs\<rparr>"
    and w2: "w2 = ?w1\<lparr>calls := calls w @ new\<rparr>"
    and each: "\<forall>i<length chunks. \<exists>b h.
           human_msg self l (document_str l (chunks ! i)) a ((JNull # rs) ! i) = Inr (b, h)
           \<and> new ! i = (Extract, [SystemMessage sp, HumanMessage h])
           \<and> reply self l (calls w @ take i new) [SystemMessage sp, HumanMessage h] = Inr (rs ! i)"
    by auto
  have merge: "merge_all_data self1 l (Some rs) a w2 = (Inr out, w')" and same: "self' = self1"
    using ok sp pt cd multi loop r self1 by (auto simp add: run_def split: prod.splits)
  from merge_all_data_Inr [OF merge]
  obtain hm where hm: "str_format (prompt_merge_template self)
                 [(''elements'', json_dumps l a), (''jsons_list'', jsons_list l rs)] = Inr hm"
    and w': "w' = w2\<lparr>calls := calls w2 @ [(Merge, [SystemMessage (system_merge_prompt self), HumanMessage hm])]\<rparr>"
    and rp: "reply self l (calls w2) [SystemMessage (system_merge_prompt self), HumanMessage hm] = Inr out"
    using self1 by auto
  have "w' = ?w1\<lparr>calls := calls w @ new @
                 [(Merge, [SystemMessage (system_merge_prompt self), HumanMessage hm])]\<rparr>"
    using w' w2 by simp
  moreover have "reply self l (calls w @ new) [SystemMessage (system_merge_prompt self), HumanMessage hm] = Inr out"
    using rp w2 by simp
  ultimately show ?thesis
    using lrs lnew self1 same each hm by blast
qed

text \<open>
  A truthy value that can be made a list has an element, so a prompt that \<^verbatim>\<open>extract\<close>
  builds is the fresh template when the previous data is falsy and the append template
  with the tail of the previous data otherwise.
\<close>

lemma as_list_truthy:
  "truthy prev \<Longrightarrow> as_list prev = Inr xs \<Longrightarrow> xs \<noteq> []"
  by (cases prev) auto

lemma human_msg_content:
  assumes hm: "human_msg self l md a prev = Inr (b, h)"
    and pt: "prompt_template self = Some pt"
  shows "(\<not> truthy prev \<longrightarrow>
            str_format pt [(''markdown'', md), (''elements'', json_dumps l a)] = Inr h)
       \<and> (truthy prev \<longrightarrow>
            (\<exists>xs. as_list prev = Inr xs \<and> xs \<noteq> []
               \<and> str_format (append_prompt_template self)
                     [(''markdown'', md), (''elements'', json_dumps l a),
                      (''previous_data'',
                       json_dumps l
                         (JArr (drop (length xs - nat (max 1 \<lceil>real (length xs) / 3\<rceil>)) xs)))] =
                   Inr h))"
proof (cases "truthy prev")
  case False
  then show ?thesis
    using hm pt by (auto simp add: human_msg_def split: sum.splits)
next
  case True
  obtain xs where xs: "as_list prev = Inr xs"
    using hm True by (cases "as_list prev") (auto simp add: human_msg_def)
  have ne: "xs \<noteq> []" using True xs by (rule as_list_truthy)
  have "str_format (append_prompt_template self)
          [(''markdown'', md), (''elements'', json_dumps l a),
           (''previous_data'', json_dumps l (JArr (tail_slice xs)))] = Inr h"
    using hm True xs ne by (auto simp add: human_msg_def split: sum.splits)
  then show ?thesis
    using True xs ne by (simp add: tail_slice_def cutoff_def overlap_factor_def)
qed

text \<open>
  The merge, whatever it returns.
\<close>

lemma merge_all_data_Some:
  "merge_all_data self l (Some rs) a w =
     (case str_format (prompt_merge_template self)
             [(''elements'', json_dumps l a), (''jsons_list'', jsons_list l rs)] of
        Inl e \<Rightarrow> (Inl e, w)
      | Inr hm \<Rightarrow>
          (reply self l (calls w) [SystemMessage (system_merge_prompt self), HumanMessage hm],
           w\<lparr>calls := calls w @ [(Merge, [SystemMessage (system_merge_prompt self), HumanMessage hm])]\<rparr>))"
  by (simp add: merge_all_data_def jsons_list_def ainvoke_def reply_def split: sum.splits)

text \<open>
  One extraction, whatever it returns: no request when the prompt cannot be built,
  otherwise one request and what its reply parses to.
\<close>

lemma extract_chunk_eq:
  assumes "system_prompt self = Some sp"
  shows "extract_chunk self l md a pd w =
     (case human_msg self l md a pd of
        Inl e \<Rightarrow> (Inl e, w)
      | Inr (b, h) \<Rightarrow>
          (reply self l (calls w) [SystemMessage sp, HumanMessage h],
           w\<lparr>calls := calls w @ [(Extract, [SystemMessage sp, HumanMessage h])]\<rparr>))"
  using assms
  by (simp add: extract_chunk_def ainvoke_def reply_def split: sum.splits prod.splits)

text \<open>
  The loop, whatever it returns: the requests it sent, in order, one per window, each
  built from the result of the window before; the results of the windows that
  completed; and then either the end of the list or one failing extraction.
\<close>

lemma extract_loop_requests:
  assumes "extract_loop self l a chunks prev w = (r, self', w')"
    and "system_prompt self = Some sp" and "chunks_data self = Some ds"
  shows "\<exists>rs new. length rs \<le> length new \<and> length new \<le> Suc (length rs)
     \<and> length new \<le> length chunks
     \<and> self' = self\<lparr>chunks_data := Some (ds @ rs)\<rparr>
     \<and> w' = w\<lparr>calls := calls w @ new\<rparr>
     \<and> (\<forall>i<length new. \<exists>b h.
           human_msg self l (document_str l (chunks ! i)) a ((prev # rs) ! i) = Inr (b, h)
           \<and> new ! i = (Extract, [SystemMessage sp, HumanMessage h])
           \<and> reply self l (calls w @ take i new) [SystemMessage sp, HumanMessage h] =
               (if i < length rs then Inr (rs ! i) else r))
     \<and> (if length rs = length chunks
         then r = Inr (last (prev # rs)) \<and> length new = length rs
         else (\<exists>e. r = Inl e
                \<and> (length new = length rs \<longrightarrow>
                     human_msg self l (document_str l (chunks ! length rs)) a
                       ((prev # rs) ! length rs) = Inl e)))"
  using assms
proof (induction chunks arbitrary: self prev w ds)
  case Nil
  then have "self' = self" and "w' = w" and "r = Inr prev" by simp_all
  moreover have "self\<lparr>chunks_data := Some (ds @ [])\<rparr> = self"
    using Nil.prems(3) by (cases self) simp
  ultimately show ?case
    by (intro exI [of _ "[]"]) simp
next
  case (Cons element rest)
  note eq = extract_chunk_eq [OF Cons.prems(2), of l "document_str l element" a prev w]
  have same: "self\<lparr>chunks_data := Some (ds @ [])\<rparr> = self"
    using Cons.prems(3) by (cases self) simp
  show ?case
  proof (cases "human_msg self l (document_str l element) a prev")
    case (Inl e)
    then have "r = Inl e" "self' = self" "w' = w"
      using Cons.prems(1) eq by simp_all
    then show ?thesis
      using Inl same by (intro exI [of _ "[]"]) simp
  next
    case (Inr bh)
    obtain b0 h0 where bh: "bh = (b0, h0)" by (cases bh)
    let ?c0 = "(Extract, [SystemMessage sp, HumanMessage h0])"
    let ?w1 = "w\<lparr>calls := calls w @ [?c0]\<rparr>"
    let ?r0 = "reply self l (calls w) [SystemMessage sp, HumanMessage h0]"
    have step: "extract_chunk self l (document_str l element) a prev w = (?r0, ?w1)"
      using eq Inr bh by simp
    have hm0: "human_msg self l (document_str l element) a prev = Inr (b0, h0)"
      using Inr bh by simp
    show ?thesis
    proof (cases ?r0)
      case (Inl e)
      then have res: "r = Inl e" "self' = self" "w' = ?w1"
        using Cons.prems(1) step by simp_all
      have "\<forall>i<length [?c0]. \<exists>b h.
           human_msg self l (document_str l ((element # rest) ! i)) a ((prev # []) ! i) = Inr (b, h)
           \<and> [?c0] ! i = (Extract, [SystemMessage sp, HumanMessage h])
           \<and> reply self l (calls w @ take i [?c0]) [SystemMessage sp, HumanMessage h] =
               (if i < length ([]::json list) then Inr ([] ! i) else r)"
        using hm0 Inl res by simp
      then show ?thesis
        using res same by (intro exI [of _ "[]"] exI [of _ "[?c0]"]) simp
    next
      case (Inr d)
      let ?self2 = "self\<lparr>chunks_data := Some (ds @ [d])\<rparr>"
      have rest: "extract_loop ?self2 l a rest d ?w1 = (r, self', w')"
        using Cons.prems(1) step Inr Cons.prems(3) by simp
      have "system_prompt ?self2 = Some sp" and "chunks_data ?self2 = Some (ds @ [d])"
        using Cons.prems(2) by simp_all
      from Cons.IH [OF rest this]
      obtain rs new where l1: "length rs \<le> length new" and l2: "length new \<le> Suc (length rs)"
        and l3: "length new \<le> length rest"
        and self': "self' = ?self2\<lparr>chunks_data := Some ((ds @ [d]) @ rs)\<rparr>"
        and w': "w' = ?w1\<lparr>calls := calls ?w1 @ new\<rparr>"
        and each: "\<forall>i<length new. \<exists>b h.
             human_msg ?self2 l (document_str l (rest ! i)) a ((d # rs) ! i) = Inr (b, h)
             \<and> new ! i = (Extract, [SystemMessage sp, HumanMessage h])
             \<and> reply ?self2 l (calls ?w1 @ take i new) [SystemMessage sp, HumanMessage h] =
                 (if i < length rs then Inr (rs ! i) else r)"
        and fin: "if length rs = length rest
           then r = Inr (last (d # rs)) \<and> length new = length rs
           else (\<exists>e. r = Inl e
                  \<and> (length new = length rs \<longrightarrow>
                       human_msg ?self2 l (document_str l (rest ! length rs)) a
                         ((d # rs) ! length rs) = Inl e))"
        by (elim exE conjE) (rule that; assumption)
      have each': "\<exists>b h.
             human_msg self l (document_str l ((element # rest) ! i)) a ((prev # d # rs) ! i) = Inr (b, h)
             \<and> (?c0 # new) ! i = (Extract, [SystemMessage sp, HumanMessage h])
             \<and> reply self l (calls w @ take i (?c0 # new)) [SystemMessage sp, HumanMessage h] =
                 (if i < length (d # rs) then Inr ((d # rs) ! i) else r)"
        if "i < length (?c0 # new)" for i
      proof (cases i)
        case 0
        then show ?thesis using hm0 Inr by simp
      next
        case (Suc j)
        then have "j < length new" using that by simp
        with each obtain b h where
          "human_msg ?self2 l (document_str l (rest ! j)) a ((d # rs) ! j) = Inr (b, h)"
          "new ! j = (Extract, [SystemMessage sp, HumanMessage h])"
          "reply ?self2 l (calls ?w1 @ take j new) [SystemMessage sp, HumanMessage h] =
             (if j < length rs then Inr (rs ! j) else r)"
          by blast
        then show ?thesis using Suc by simp
      qed
      have fin': "if length (d # rs) = length (element # rest)
           then r = Inr (last (prev # d # rs)) \<and> length (?c0 # new) = length (d # rs)
           else (\<exists>e. r = Inl e
                  \<and> (length (?c0 # new) = length (d # rs) \<longrightarrow>
                       human_msg self l (document_str l ((element # rest) ! length (d # rs))) a
                         ((prev # d # rs) ! length (d # rs)) = Inl e))"
        using fin by (auto split: if_splits)
      have "length (d # rs) \<le> length (?c0 # new)" "length (?c0 # new) \<le> Suc (length (d # rs))"
        "length (?c0 # new) \<le> length (element # rest)"
        using l1 l2 l3 by simp_all
      moreover have "self' = self\<lparr>chunks_data := Some (ds @ d # rs)\<rparr>"
        using self' by simp
      moreover have "w' = w\<lparr>calls := calls w @ ?c0 # new\<rparr>"
        using w' by simp
      ultimately show ?thesis
        using each' fin' by (intro exI [of _ "d # rs"] exI [of _ "?c0 # new"] conjI allI impI)
    qed
  qed
qed

text \<open>
  A multi-window run, whatever it returns.
\<close>

lemma run_multi_requests:
  assumes sp: "system_prompt self = Some sp" and pt: "prompt_template self = Some pt"
    and cd: "create_documents l (text_splitter self) [content] = Inr chunks"
    and multi: "1 < length chunks"
    and run: "run self l content a w = (r, self', w')"
  shows "\<exists>rs new. length rs \<le> length new \<and> length new \<le> Suc (length rs)
     \<and> length new \<le> length chunks
     \<and> self' = self\<lparr>chunks_data := Some rs\<rparr>
     \<and> stdout w' = stdout (print_token_counts self 0 chunks w)
     \<and> (\<forall>i<length new. \<exists>b h.
           human_msg self l (document_str l (chunks ! i)) a ((JNull # rs) ! i) = Inr (b, h)
           \<and> new ! i = (Extract, [SystemMessage sp, HumanMessage h])
           \<and> reply self l (calls w @ take i new) [SystemMessage sp, HumanMessage h] =
               (if i < length rs then Inr (rs ! i) else r))
     \<and> (if length rs = length chunks
         then length new = length rs
              \<and> (case str_format (prompt_merge_template self)
                      [(''elements'', json_dumps l a), (''jsons_list'', jsons_list l rs)] of
                 Inl e \<Rightarrow> r = Inl e \<and> calls w' = calls w @ new
               | Inr hm \<Rightarrow>
                   r = reply self l (calls w @ new)
                         [SystemMessage (system_merge_prompt self), HumanMessage hm]
                   \<and> calls w' = calls w @ new @
                        [(Merge, [SystemMessage (system_merge_prompt self), HumanMessage hm])])
         else calls w' = calls w @ new
              \<and> (\<exists>e. r = Inl e
                    \<and> (length new = length rs \<longrightarrow>
                         human_msg self l (document_str l (chunks ! length rs)) a
                           ((JNull # rs) ! length rs) = Inl e)))"
proof -
  let ?self0 = "self\<lparr>chunks_data := Some []\<rparr>"
  let ?w1 = "print_token_counts self 0 chunks w"
  obtain r1 self1 w2 where loop: "extract_loop ?self0 l a chunks JNull ?w1 = (r1, self1, w2)"
    by (cases "extract_loop ?self0 l a chunks JNull ?w1")
  have "system_prompt ?self0 = Some sp" and "chunks_data ?self0 = Some []"
    using sp by simp_all
  from extract_loop_requests [OF loop this]
  obtain rs new where l1: "length rs \<le> length new" and l2: "length new \<le> Suc (length rs)"
    and l3: "length new \<le> length chunks"
    and self1: "self1 = ?self0\<lparr>chunks_data := Some ([] @ rs)\<rparr>"
    and w2: "w2 = ?w1\<lparr>calls := calls ?w1 @ new\<rparr>"
    and each: "\<forall>i<length new. \<exists>b h.
           human_msg ?self0 l (document_str l (chunks ! i)) a ((JNull # rs) ! i) = Inr (b, h)
           \<and> new ! i = (Extract, [SystemMessage sp, HumanMessage h])
           \<and> reply ?self0 l (calls ?w1 @ take i new) [SystemMessage sp, HumanMessage h] =
               (if i < length rs then Inr (rs ! i) else r1)"
    and fin: "if length rs = length chunks
         then r1 = Inr (last (JNull # rs)) \<and> length new = length rs
         else (\<exists>e. r1 = Inl e
                \<and> (length new = length rs \<longrightarrow>
                     human_msg ?self0 l (document_str l (chunks ! length rs)) a
                       ((JNull # rs) ! length rs) = Inl e))"
    by (elim exE conjE) (rule that; assumption)
  have s1: "self1 = self\<lparr>chunks_data := Some rs\<rparr>"
    using self1 by simp
  have c2: "calls w2 = calls w @ new" and o2: "stdout w2 = stdout ?w1"
    using w2 by simp_all
  show ?thesis
  proof (cases "length rs = length chunks")
    case True
    then have r1: "r1 = Inr (last (JNull # rs))" and ln: "length new = length rs"
      using fin by simp_all
    have res: "(r, self', w') =
                 (case merge_all_data self1 l (Some rs) a w2 of (r', w'') \<Rightarrow> (r', self1, w''))"
      using run sp pt cd multi loop r1 s1 by (simp add: run_def)
    let ?f = "str_format (prompt_merge_template self)
                [(''elements'', json_dumps l a), (''jsons_list'', jsons_list l rs)]"
    have last: "(case ?f of
                 Inl e \<Rightarrow> r = Inl e \<and> calls w' = calls w @ new
               | Inr hm \<Rightarrow>
                   r = reply self l (calls w @ new)
                         [SystemMessage (system_merge_prompt self), HumanMessage hm]
                   \<and> calls w' = calls w @ new @
                        [(Merge, [SystemMessage (system_merge_prompt self), HumanMessage hm])])"
      and out: "stdout w' = stdout ?w1" and s': "self' = self1"
      using res s1 c2 o2 by (auto simp add: merge_all_data_Some split: sum.splits)
    have each': "\<forall>i<length new. \<exists>b h.
           human_msg self l (document_str l (chunks ! i)) a ((JNull # rs) ! i) = Inr (b, h)
           \<and> new ! i = (Extract, [SystemMessage sp, HumanMessage h])
           \<and> reply self l (calls w @ take i new) [SystemMessage sp, HumanMessage h] =
               (if i < length rs then Inr (rs ! i) else r)"
      using each ln by simp
    show ?thesis
      using True l1 l2 l3 ln s1 s' each' last out
      by (intro exI [of _ rs] exI [of _ new]) simp
  next
    case False
    then obtain e where r1: "r1 = Inl e"
      and nosend: "length new = length rs \<longrightarrow>
                     human_msg self l (document_str l (chunks ! length rs)) a
                       ((JNull # rs) ! length rs) = Inl e"
      using fin by auto
    have res: "r = Inl e" "self' = self1" "w' = w2"
      using run sp pt cd multi loop r1 by (simp_all add: run_def)
    have same: "r1 = r" using res r1 by simp
    have each': "\<forall>i<length new. \<exists>b h.
           human_msg self l (document_str l (chunks ! i)) a ((JNull # rs) ! i) = Inr (b, h)
           \<and> new ! i = (Extract, [SystemMessage sp, HumanMessage h])
           \<and> reply self l (calls w @ take i new) [SystemMessage sp, HumanMessage h] =
               (if i < length rs then Inr (rs ! i) else r)"
      using each unfolding same by simp
    show ?thesis
      using False l1 l2 l3 s1 res c2 o2 each' nosend
      by (intro exI [of _ rs] exI [of _ new]) simp
  qed
qed

text \<open>
  Unfolding rules for evaluating the concrete runs.
\<close>

lemmas demo_defs =
  demo_extractor_def ChunksTabularExtractor_init_def demo_lib_def stub_lib_def
  demo_table_def demo_attributes_def row_def scripted_model_def table_parse_def w0_def
  overlap_factor_def count_tokens_def

lemmas run_defs =
  run_def extract_chunk_def human_msg_def merge_all_data_def ainvoke_def
  tail_slice_def cutoff_def
  SIMPLE_EXTRACTOR_PROMPT_TEMPLATE_def APPEND_EXTRACTOR_PROMPT_TEMPLATE_def
  EXTRACTOR_MERGE_PROMPT_TEMPLATE_def

section \<open>The claims\<close>

subsection \<open>C1: the continuation payload\<close>

text \<open>
  C1, as the code has it. When the previous window's PartialResult is a non-empty list of
  length \<open>L\<close>, the continuation prompt is the append template filled with the
  serialisation of \<open>tail_slice\<close> of that list; the slice is a suffix of the list, it
  has \<open>max 1 \<lceil>L / 3\<rceil>\<close> records, it is strictly shorter than the PartialResult
  when \<open>L \<ge> 2\<close>, and it is the whole PartialResult when \<open>L = 1\<close>.
\<close>

theorem continuation_payload_is_tail:
  assumes "xs \<noteq> []"
  shows "human_msg self l md a (JArr xs) =
           (case str_format (append_prompt_template self)
                   [(''markdown'', md), (''elements'', json_dumps l a),
                    (''previous_data'', json_dumps l (JArr (tail_slice xs)))] of
              Inl e \<Rightarrow> Inl e
            | Inr h \<Rightarrow> Inr (Continuation, h))
         \<and> (\<exists>ys. xs = ys @ tail_slice xs)
         \<and> int (length (tail_slice xs)) = max 1 \<lceil>real (length xs) / 3\<rceil>
         \<and> (2 \<le> length xs \<longrightarrow> length (tail_slice xs) < length xs)
         \<and> (length xs = 1 \<longrightarrow> tail_slice xs = xs)"
proof -
  have msg: "human_msg self l md a (JArr xs) =
           (case str_format (append_prompt_template self)
                   [(''markdown'', md), (''elements'', json_dumps l a),
                    (''previous_data'', json_dumps l (JArr (tail_slice xs)))] of
              Inl e \<Rightarrow> Inl e
            | Inr h \<Rightarrow> Inr (Continuation, h))"
    using assms by (simp add: human_msg_def split: sum.splits)
  have suffix: "\<exists>ys. xs = ys @ tail_slice xs"
    unfolding tail_slice_def by (metis append_take_drop_id)
  have len: "length (tail_slice xs) = max 1 ((length xs + 2) div 3)"
    using assms by (rule length_tail_slice)
  have size: "int (length (tail_slice xs)) = max 1 \<lceil>real (length xs) / 3\<rceil>"
    unfolding len ceiling_third by simp
  have proper: "2 \<le> length xs \<longrightarrow> length (tail_slice xs) < length xs"
    unfolding len using third_less by blast
  have whole: "length xs = 1 \<longrightarrow> tail_slice xs = xs"
    unfolding tail_slice_def cutoff_nat by simp
  from msg suffix size proper whole show ?thesis by blast
qed

text \<open>
  The statement at a PartialResult of four records: the payload is the last two.
\<close>

theorem continuation_payload_is_tail_witness:
  "[row ''zero'' (JStr ''123''), row ''first'' (JStr ''100''),
    row ''second'' (JStr ''200''), row ''third'' (JStr ''999'')] \<noteq> []
   \<and> human_msg (demo_extractor []) demo_lib ''md'' demo_attributes
        (JArr [row ''zero'' (JStr ''123''), row ''first'' (JStr ''100''),
               row ''second'' (JStr ''200''), row ''third'' (JStr ''999'')]) =
       (case str_format APPEND_EXTRACTOR_PROMPT_TEMPLATE
               [(''markdown'', ''md''), (''elements'', stub_dumps demo_attributes),
                (''previous_data'',
                 stub_dumps (JArr [row ''second'' (JStr ''200''), row ''third'' (JStr ''999'')]))] of
          Inl e \<Rightarrow> Inl e
        | Inr h \<Rightarrow> Inr (Continuation, h))
   \<and> length (tail_slice [row ''zero'' (JStr ''123''), row ''first'' (JStr ''100''),
                          row ''second'' (JStr ''200''), row ''third'' (JStr ''999'')]) = 2"
proof -
  have t: "tail_slice [row ''zero'' (JStr ''123''), row ''first'' (JStr ''100''),
                       row ''second'' (JStr ''200''), row ''third'' (JStr ''999'')]
           = [row ''second'' (JStr ''200''), row ''third'' (JStr ''999'')]"
    by (simp add: tail_slice_def cutoff_def overlap_factor_def)
  show ?thesis
    using continuation_payload_is_tail
      [of "[row ''zero'' (JStr ''123''), row ''first'' (JStr ''100''),
            row ''second'' (JStr ''200''), row ''third'' (JStr ''999'')]"
          "demo_extractor []" demo_lib "''md''" demo_attributes]
    unfolding t
    by (simp add: demo_extractor_def ChunksTabularExtractor_init_def demo_lib_def stub_lib_def)
qed

text \<open>
  C1 as stated says the payload is never the full PartialResult. For a PartialResult of
  one record the payload is that one record, which is all of it; and in a two-window run
  whose first window yields one record, the second request carries that whole
  PartialResult.
\<close>

theorem one_record_payload_is_whole_result:
  "tail_slice [row ''zero'' (JStr ''123'')] = [row ''zero'' (JStr ''123'')]
   \<and> human_msg (demo_extractor []) demo_lib ''md'' demo_attributes
        (JArr [row ''zero'' (JStr ''123'')]) =
       (case str_format APPEND_EXTRACTOR_PROMPT_TEMPLATE
               [(''markdown'', ''md''), (''elements'', stub_dumps demo_attributes),
                (''previous_data'', stub_dumps (JArr [row ''zero'' (JStr ''123'')]))] of
          Inl e \<Rightarrow> Inl e
        | Inr h \<Rightarrow> Inr (Continuation, h))
   \<and> chunks_data (fst (snd (run (demo_extractor [Inr ''A'', Inr ''C'', Inr ''D'']) demo_lib ''ab''
                                demo_attributes w0))) =
       Some [JArr [row ''zero'' (JStr ''123'')], JArr [row ''third'' (JStr ''400'')]]
   \<and> (case str_format APPEND_EXTRACTOR_PROMPT_TEMPLATE
               [(''markdown'', ''b''), (''elements'', stub_dumps demo_attributes),
                (''previous_data'', stub_dumps (JArr [row ''zero'' (JStr ''123'')]))] of
          Inl e \<Rightarrow> False
        | Inr h \<Rightarrow>
            calls (snd (snd (run (demo_extractor [Inr ''A'', Inr ''C'', Inr ''D'']) demo_lib ''ab''
                                demo_attributes w0))) ! 1 =
              (Extract, [SystemMessage TABULAR_EXTRACTOR_SYSTEM_PROMPT, HumanMessage h]))"
proof -
  have t: "tail_slice [row ''zero'' (JStr ''123'')] = [row ''zero'' (JStr ''123'')]"
    by (simp add: tail_slice_def cutoff_def overlap_factor_def)
  have m: "human_msg (demo_extractor []) demo_lib ''md'' demo_attributes
        (JArr [row ''zero'' (JStr ''123'')]) =
       (case str_format APPEND_EXTRACTOR_PROMPT_TEMPLATE
               [(''markdown'', ''md''), (''elements'', stub_dumps demo_attributes),
                (''previous_data'', stub_dumps (JArr [row ''zero'' (JStr ''123'')]))] of
          Inl e \<Rightarrow> Inl e
        | Inr h \<Rightarrow> Inr (Continuation, h))"
    by (simp add: human_msg_def t demo_extractor_def ChunksTabularExtractor_init_def
          demo_lib_def stub_lib_def split: sum.splits)
  have d: "chunks_data (fst (snd (run (demo_extractor [Inr ''A'', Inr ''C'', Inr ''D'']) demo_lib ''ab''
                                demo_attributes w0))) =
       Some [JArr [row ''zero'' (JStr ''123'')], JArr [row ''third'' (JStr ''400'')]]"
    by (simp add: run_defs demo_defs)
  have c: "(case str_format APPEND_EXTRACTOR_PROMPT_TEMPLATE
               [(''markdown'', ''b''), (''elements'', stub_dumps demo_attributes),
                (''previous_data'', stub_dumps (JArr [row ''zero'' (JStr ''123'')]))] of
          Inl e \<Rightarrow> False
        | Inr h \<Rightarrow>
            calls (snd (snd (run (demo_extractor [Inr ''A'', Inr ''C'', Inr ''D'']) demo_lib ''ab''
                                demo_attributes w0))) ! 1 =
              (Extract, [SystemMessage TABULAR_EXTRACTOR_SYSTEM_PROMPT, HumanMessage h]))"
    by (simp add: run_defs demo_defs)
  from t m d c show ?thesis by blast
qed

subsection \<open>C2: a single window\<close>

text \<open>
  C2. When the splitter returns exactly one chunk, \<^verbatim>\<open>run\<close> sends one request, tagged
  \<open>Extract\<close>, whose human message is the fresh template filled with the chunk and the
  schema (no continuation), returns what the reply parses to (or the exception of the
  model or parser), leaves the object as it was, and sends nothing else: no request
  tagged \<open>Merge\<close> is added.
\<close>

theorem single_window_run:
  assumes "system_prompt self = Some sp" and "prompt_template self = Some t"
    and "create_documents l (text_splitter self) [content] = Inr [c]"
    and "str_format t [(''markdown'', document_str l c), (''elements'', json_dumps l attributes)] = Inr h"
  shows "run self l content attributes w =
           (reply self l (calls w) [SystemMessage sp, HumanMessage h],
            self,
            w\<lparr>calls := calls w @ [(Extract, [SystemMessage sp, HumanMessage h])],
              stdout := stdout w @ [ChunkTokenCount 1 (length_function (text_splitter self) (page_content c))]\<rparr>)"
  using assms
  by (simp add: run_def extract_chunk_def human_msg_def ainvoke_def reply_def split: sum.splits)

text \<open>
  The statement on a one-character document.
\<close>

theorem single_window_run_witness:
  "create_documents demo_lib (text_splitter (demo_extractor [Inr ''A''])) [''a''] = Inr [Document ''a'']
   \<and> fst (run (demo_extractor [Inr ''A'']) demo_lib ''a'' demo_attributes w0) =
       Inr (JArr [row ''zero'' (JStr ''123'')])
   \<and> fst (snd (run (demo_extractor [Inr ''A'']) demo_lib ''a'' demo_attributes w0)) =
       demo_extractor [Inr ''A'']
   \<and> map fst (calls (snd (snd (run (demo_extractor [Inr ''A'']) demo_lib ''a'' demo_attributes w0)))) =
       [Extract]"
proof -
  have sp: "system_prompt (demo_extractor [Inr ''A'']) = Some TABULAR_EXTRACTOR_SYSTEM_PROMPT"
    and pt: "prompt_template (demo_extractor [Inr ''A'']) = Some SIMPLE_EXTRACTOR_PROMPT_TEMPLATE"
    and cd: "create_documents demo_lib (text_splitter (demo_extractor [Inr ''A''])) [''a''] = Inr [Document ''a'']"
    by (simp_all add: demo_defs)
  note fmt = simple_template_formats [of "document_str demo_lib (Document ''a'')" "json_dumps demo_lib demo_attributes"]
  show ?thesis
    unfolding single_window_run [OF sp pt cd fmt]
    by (simp add: cd) (simp add: reply_def demo_defs)
qed

subsection \<open>C3: sequential extraction and one merge\<close>

text \<open>
  C3. In every multi-window run, whatever it returns, the \<open>Extract\<close> requests added
  to the log are one per window, in document order, for the windows that completed
  and, when an extraction failed after its request was sent, for the failing window.
  The request for window \<open>i\<close> is built from chunk \<open>i\<close> and from the PartialResult of
  window \<open>i - 1\<close>: for the first window, and after a falsy PartialResult, it is the
  fresh template filled with the chunk and the schema; after a non-empty list \<open>xs\<close>
  (or another truthy value, made a list) it is the append template filled with the
  chunk, the schema and the serialisation of the last \<open>max 1 \<lceil>length xs / 3\<rceil>\<close>
  records of \<open>xs\<close>. PartialResult \<open>i\<close> is what the model's reply to that request,
  sent after the \<open>i\<close> earlier ones, parses to, and \<^verbatim>\<open>chunks_data\<close> holds the
  PartialResults in window order. When all windows have completed, the merge prompt is
  formatted from all of them in that order and, unless formatting raises, exactly one
  \<open>Merge\<close> request follows, whose parsed reply (or exception) is what \<^verbatim>\<open>run\<close>
  returns. When a window fails, \<^verbatim>\<open>run\<close> raises the exception of that window's
  extraction and nothing follows in the log.
\<close>

theorem sequential_then_single_merge:
  assumes "system_prompt self = Some sp" and "prompt_template self = Some pt"
    and "create_documents l (text_splitter self) [content] = Inr chunks"
    and "1 < length chunks"
    and "run self l content a w = (r, self', w')"
  shows "\<exists>rs new. length rs \<le> length new \<and> length new \<le> Suc (length rs)
     \<and> length new \<le> length chunks
     \<and> chunks_data self' = Some rs
     \<and> (\<forall>i<length new. \<exists>b h.
           human_msg self l (document_str l (chunks ! i)) a (if i = 0 then JNull else rs ! (i - 1)) = Inr (b, h)
           \<and> new ! i = (Extract, [SystemMessage sp, HumanMessage h])
           \<and> reply self l (calls w @ take i new) [SystemMessage sp, HumanMessage h] =
               (if i < length rs then Inr (rs ! i) else r)
           \<and> (i = 0 \<or> \<not> truthy (rs ! (i - 1)) \<longrightarrow>
                str_format pt [(''markdown'', document_str l (chunks ! i)),
                               (''elements'', json_dumps l a)] = Inr h)
           \<and> (0 < i \<and> truthy (rs ! (i - 1)) \<longrightarrow>
                (\<exists>xs. as_list (rs ! (i - 1)) = Inr xs \<and> xs \<noteq> []
                   \<and> str_format (append_prompt_template self)
                         [(''markdown'', document_str l (chunks ! i)),
                          (''elements'', json_dumps l a),
                          (''previous_data'',
                           json_dumps l
                             (JArr (drop (length xs - nat (max 1 \<lceil>real (length xs) / 3\<rceil>)) xs)))] =
                       Inr h))
           \<and> (\<forall>xs. 0 < i \<and> rs ! (i - 1) = JArr xs \<and> xs \<noteq> [] \<longrightarrow>
                str_format (append_prompt_template self)
                  [(''markdown'', document_str l (chunks ! i)),
                   (''elements'', json_dumps l a),
                   (''previous_data'',
                    json_dumps l
                      (JArr (drop (length xs - nat (max 1 \<lceil>real (length xs) / 3\<rceil>)) xs)))] =
                Inr h))
     \<and> (if length rs = length chunks
         then length new = length rs
              \<and> (case str_format (prompt_merge_template self)
                      [(''elements'', json_dumps l a), (''jsons_list'', jsons_list l rs)] of
                 Inl e \<Rightarrow> r = Inl e \<and> calls w' = calls w @ new
               | Inr hm \<Rightarrow>
                   r = reply self l (calls w @ new)
                         [SystemMessage (system_merge_prompt self), HumanMessage hm]
                   \<and> calls w' = calls w @ new @
                        [(Merge, [SystemMessage (system_merge_prompt self), HumanMessage hm])])
         else calls w' = calls w @ new
              \<and> (\<exists>e. r = Inl e
                    \<and> (length new = length rs \<longrightarrow>
                         human_msg self l (document_str l (chunks ! length rs)) a
                           (if length rs = 0 then JNull else rs ! (length rs - 1)) = Inl e)))"
proof -
  have nth: "(JNull # rs) ! i = (if i = 0 then JNull else rs ! (i - 1))" for i and rs :: "json list"
    by (cases i) simp_all
  from run_multi_requests [OF assms, unfolded nth]
  obtain rs new where l1: "length rs \<le> length new" and l2: "length new \<le> Suc (length rs)"
    and l3: "length new \<le> length chunks"
    and self': "self' = self\<lparr>chunks_data := Some rs\<rparr>"
    and "stdout w' = stdout (print_token_counts self 0 chunks w)"
    and each: "\<forall>i<length new. \<exists>b h.
           human_msg self l (document_str l (chunks ! i)) a (if i = 0 then JNull else rs ! (i - 1)) = Inr (b, h)
           \<and> new ! i = (Extract, [SystemMessage sp, HumanMessage h])
           \<and> reply self l (calls w @ take i new) [SystemMessage sp, HumanMessage h] =
               (if i < length rs then Inr (rs ! i) else r)"
    and fin: "if length rs = length chunks
         then length new = length rs
              \<and> (case str_format (prompt_merge_template self)
                      [(''elements'', json_dumps l a), (''jsons_list'', jsons_list l rs)] of
                 Inl e \<Rightarrow> r = Inl e \<and> calls w' = calls w @ new
               | Inr hm \<Rightarrow>
                   r = reply self l (calls w @ new)
                         [SystemMessage (system_merge_prompt self), HumanMessage hm]
                   \<and> calls w' = calls w @ new @
                        [(Merge, [SystemMessage (system_merge_prompt self), HumanMessage hm])])
         else calls w' = calls w @ new
              \<and> (\<exists>e. r = Inl e
                    \<and> (length new = length rs \<longrightarrow>
                         human_msg self l (document_str l (chunks ! length rs)) a
                           (if length rs = 0 then JNull else rs ! (length rs - 1)) = Inl e))"
    by (elim exE conjE) (rule that; assumption)
  have each': "\<exists>b h.
           human_msg self l (document_str l (chunks ! i)) a (if i = 0 then JNull else rs ! (i - 1)) = Inr (b, h)
           \<and> new ! i = (Extract, [SystemMessage sp, HumanMessage h])
           \<and> reply self l (calls w @ take i new) [SystemMessage sp, HumanMessage h] =
               (if i < length rs then Inr (rs ! i) else r)
           \<and> (i = 0 \<or> \<not> truthy (rs ! (i - 1)) \<longrightarrow>
                str_format pt [(''markdown'', document_str l (chunks ! i)),
                               (''elements'', json_dumps l a)] = Inr h)
           \<and> (0 < i \<and> truthy (rs ! (i - 1)) \<longrightarrow>
                (\<exists>xs. as_list (rs ! (i - 1)) = Inr xs \<and> xs \<noteq> []
                   \<and> str_format (append_prompt_template self)
                         [(''markdown'', document_str l (chunks ! i)),
                          (''elements'', json_dumps l a),
                          (''previous_data'',
                           json_dumps l
                             (JArr (drop (length xs - nat (max 1 \<lceil>real (length xs) / 3\<rceil>)) xs)))] =
                       Inr h))
           \<and> (\<forall>xs. 0 < i \<and> rs ! (i - 1) = JArr xs \<and> xs \<noteq> [] \<longrightarrow>
                str_format (append_prompt_template self)
                  [(''markdown'', document_str l (chunks ! i)),
                   (''elements'', json_dumps l a),
                   (''previous_data'',
                    json_dumps l
                      (JArr (drop (length xs - nat (max 1 \<lceil>real (length xs) / 3\<rceil>)) xs)))] =
                Inr h)"
    if i: "i < length new" for i
  proof -
    let ?prev = "if i = 0 then JNull else rs ! (i - 1)"
    from each i obtain b h where
      hm: "human_msg self l (document_str l (chunks ! i)) a ?prev = Inr (b, h)"
      and rq: "new ! i = (Extract, [SystemMessage sp, HumanMessage h])"
      and rp: "reply self l (calls w @ take i new) [SystemMessage sp, HumanMessage h] =
               (if i < length rs then Inr (rs ! i) else r)"
      by blast
    note content = human_msg_content [OF hm assms(2)]
    have fresh: "i = 0 \<or> \<not> truthy (rs ! (i - 1)) \<longrightarrow>
                str_format pt [(''markdown'', document_str l (chunks ! i)),
                               (''elements'', json_dumps l a)] = Inr h"
      using content by auto
    have cont: "0 < i \<and> truthy (rs ! (i - 1)) \<longrightarrow>
                (\<exists>xs. as_list (rs ! (i - 1)) = Inr xs \<and> xs \<noteq> []
                   \<and> str_format (append_prompt_template self)
                         [(''markdown'', document_str l (chunks ! i)),
                          (''elements'', json_dumps l a),
                          (''previous_data'',
                           json_dumps l
                             (JArr (drop (length xs - nat (max 1 \<lceil>real (length xs) / 3\<rceil>)) xs)))] =
                       Inr h)"
      using content by auto
    have lst: "\<forall>xs. 0 < i \<and> rs ! (i - 1) = JArr xs \<and> xs \<noteq> [] \<longrightarrow>
                str_format (append_prompt_template self)
                  [(''markdown'', document_str l (chunks ! i)),
                   (''elements'', json_dumps l a),
                   (''previous_data'',
                    json_dumps l
                      (JArr (drop (length xs - nat (max 1 \<lceil>real (length xs) / 3\<rceil>)) xs)))] =
                Inr h"
      using cont by auto
    show ?thesis
      by (intro exI [of _ b] exI [of _ h] conjI) (rule hm, rule rq, rule rp, rule fresh, rule cont, rule lst)
  qed
  have cdata: "chunks_data self' = Some rs" using self' by simp
  show ?thesis
    by (intro exI [of _ rs] exI [of _ new] conjI allI impI)
       (rule l1, rule l2, rule l3, rule cdata, erule each', rule fin)
qed

text \<open>
  The statement on a document of three chunks.
\<close>

theorem sequential_then_single_merge_witness:
  "create_documents demo_lib (text_splitter (demo_extractor [Inr ''A'', Inr ''B'', Inr ''C'', Inr ''D'']))
     [''abc''] = Inr [Document ''a'', Document ''b'', Document ''c'']
   \<and> fst (run (demo_extractor [Inr ''A'', Inr ''B'', Inr ''C'', Inr ''D'']) demo_lib ''abc''
             demo_attributes w0) =
       Inr (JArr [row ''zero'' (JStr ''123''), row ''first'' (JStr ''100''),
                  row ''second'' (JStr ''200''), row ''third'' (JStr ''999'')])
   \<and> chunks_data (fst (snd (run (demo_extractor [Inr ''A'', Inr ''B'', Inr ''C'', Inr ''D'']) demo_lib
                                ''abc'' demo_attributes w0))) =
       Some [JArr [row ''zero'' (JStr ''123'')], JArr [row ''third'' JNull],
             JArr [row ''third'' (JStr ''400'')]]
   \<and> map fst (calls (snd (snd (run (demo_extractor [Inr ''A'', Inr ''B'', Inr ''C'', Inr ''D''])
                                    demo_lib ''abc'' demo_attributes w0)))) =
       [Extract, Extract, Extract, Merge]"
proof -
  define ex where "ex = demo_extractor [Inr ''A'', Inr ''B'', Inr ''C'', Inr ''D'']"
  define chunks where "chunks = [Document ''a'', Document ''b'', Document ''c'']"
  define out where "out = JArr [row ''zero'' (JStr ''123''), row ''first'' (JStr ''100''),
                  row ''second'' (JStr ''200''), row ''third'' (JStr ''999'')]"
  define self' where "self' = fst (snd (run ex demo_lib ''abc'' demo_attributes w0))"
  define w' where "w' = snd (snd (run ex demo_lib ''abc'' demo_attributes w0))"
  have sp: "system_prompt ex = Some TABULAR_EXTRACTOR_SYSTEM_PROMPT"
    and pt: "prompt_template ex = Some SIMPLE_EXTRACTOR_PROMPT_TEMPLATE"
    and cd: "create_documents demo_lib (text_splitter ex) [''abc''] = Inr chunks"
    and multi: "1 < length chunks" and l3: "length chunks = 3"
    unfolding ex_def chunks_def by (simp_all add: demo_defs)
  have res: "fst (run ex demo_lib ''abc'' demo_attributes w0) = Inr out"
    unfolding ex_def out_def by (simp add: run_defs demo_defs)
  have data: "chunks_data self' =
       Some [JArr [row ''zero'' (JStr ''123'')], JArr [row ''third'' JNull],
             JArr [row ''third'' (JStr ''400'')]]"
    unfolding self'_def ex_def by (simp add: run_defs demo_defs)
  have ok: "run ex demo_lib ''abc'' demo_attributes w0 = (Inr out, self', w')"
    unfolding self'_def w'_def using res by (metis prod.collapse)
  note main = sequential_then_single_merge [OF sp pt cd multi ok]
  then obtain rs new where l1: "length rs \<le> length new" and "length new \<le> Suc (length rs)"
    and "length new \<le> length chunks"
    and rs: "chunks_data self' = Some rs"
    and each: "\<forall>i<length new. \<exists>b h.
           human_msg ex demo_lib (document_str demo_lib (chunks ! i)) demo_attributes
             (if i = 0 then JNull else rs ! (i - 1)) = Inr (b, h)
           \<and> new ! i = (Extract, [SystemMessage TABULAR_EXTRACTOR_SYSTEM_PROMPT, HumanMessage h])
           \<and> reply ex demo_lib (calls w0 @ take i new)
                 [SystemMessage TABULAR_EXTRACTOR_SYSTEM_PROMPT, HumanMessage h] =
               (if i < length rs then Inr (rs ! i) else Inr out)
           \<and> (i = 0 \<or> \<not> truthy (rs ! (i - 1)) \<longrightarrow>
                str_format SIMPLE_EXTRACTOR_PROMPT_TEMPLATE
                  [(''markdown'', document_str demo_lib (chunks ! i)),
                   (''elements'', json_dumps demo_lib demo_attributes)] = Inr h)
           \<and> (0 < i \<and> truthy (rs ! (i - 1)) \<longrightarrow>
                (\<exists>xs. as_list (rs ! (i - 1)) = Inr xs \<and> xs \<noteq> []
                   \<and> str_format (append_prompt_template ex)
                         [(''markdown'', document_str demo_lib (chunks ! i)),
                          (''elements'', json_dumps demo_lib demo_attributes),
                          (''previous_data'',
                           json_dumps demo_lib
                             (JArr (drop (length xs - nat (max 1 \<lceil>real (length xs) / 3\<rceil>)) xs)))] =
                       Inr h))
           \<and> (\<forall>xs. 0 < i \<and> rs ! (i - 1) = JArr xs \<and> xs \<noteq> [] \<longrightarrow>
                str_format (append_prompt_template ex)
                  [(''markdown'', document_str demo_lib (chunks ! i)),
                   (''elements'', json_dumps demo_lib demo_attributes),
                   (''previous_data'',
                    json_dumps demo_lib
                      (JArr (drop (length xs - nat (max 1 \<lceil>real (length xs) / 3\<rceil>)) xs)))] =
                Inr h)"
    and fin: "if length rs = length chunks
         then length new = length rs
              \<and> (case str_format (prompt_merge_template ex)
                      [(''elements'', json_dumps demo_lib demo_attributes),
                       (''jsons_list'', jsons_list demo_lib rs)] of
                 Inl e \<Rightarrow> Inr out = Inl e \<and> calls w' = calls w0 @ new
               | Inr hm \<Rightarrow>
                   Inr out = reply ex demo_lib (calls w0 @ new)
                         [SystemMessage (system_merge_prompt ex), HumanMessage hm]
                   \<and> calls w' = calls w0 @ new @
                        [(Merge, [SystemMessage (system_merge_prompt ex), HumanMessage hm])])
         else calls w' = calls w0 @ new
              \<and> (\<exists>e::exn. Inr out = Inl e
                    \<and> (length new = length rs \<longrightarrow>
                         human_msg ex demo_lib (document_str demo_lib (chunks ! length rs)) demo_attributes
                           (if length rs = 0 then JNull else rs ! (length rs - 1)) = Inl e))"
    by (elim exE conjE) (rule that; assumption)
  have lrs: "length rs = 3" using rs data by auto
  then have ln: "length new = length rs" using fin l3 by simp
  have tag: "\<exists>m. new ! i = (Extract, m)" if "i < length new" for i
  proof -
    from each that obtain b h where
      "new ! i = (Extract, [SystemMessage TABULAR_EXTRACTOR_SYSTEM_PROMPT, HumanMessage h])"
      by blast
    then show ?thesis by (rule exI)
  qed
  have "\<forall>i<length new. fst (new ! i) = Extract"
    using tag by fastforce
  then have "map fst new = replicate (length new) Extract"
    by (intro nth_equalityI) simp_all
  then have new: "map fst new = [Extract, Extract, Extract]"
    using ln lrs by (simp add: numeral_3_eq_3)
  obtain hm where "calls w' = calls w0 @ new @
                        [(Merge, [SystemMessage (system_merge_prompt ex), HumanMessage hm])]"
    using fin lrs l3 by (auto split: sum.splits)
  then have tags: "map fst (calls w') = [Extract, Extract, Extract, Merge]"
    using new by (simp add: w0_def)
  show ?thesis
    using cd res data tags unfolding ex_def chunks_def out_def self'_def w'_def
    by (intro conjI)
qed

subsection \<open>C4: a failing extraction aborts the run\<close>

text \<open>
  C4. In a multi-window run, if the windows before window \<open>i\<close> were extracted and the
  extraction of window \<open>i\<close> raises \<open>e\<close>, then \<^verbatim>\<open>run\<close> raises that same \<open>e\<close> and
  returns no result; the world is as the failing extraction left it, so nothing was
  sent afterwards. The requests added to the log number \<open>i\<close> or \<open>i + 1\<close> (one per
  window, none repeated) and every one of them is tagged \<open>Extract\<close>: no merge request.
\<close>

theorem extraction_failure_aborts_run:
  assumes sp: "system_prompt self \<noteq> None" and pt: "prompt_template self \<noteq> None"
    and cd: "create_documents l (text_splitter self) [content] = Inr chunks"
    and multi: "1 < length chunks"
    and i: "i < length chunks"
    and before: "extract_loop (self\<lparr>chunks_data := Some []\<rparr>) l a (take i chunks) JNull
                   (print_token_counts self 0 chunks w) = (Inr prev, self_i, w_i)"
    and fails: "extract_chunk self_i l (document_str l (chunks ! i)) a prev w_i = (Inl e, w_e)"
  shows "run self l content a w = (Inl e, self_i, w_e)
     \<and> (\<exists>new. calls w_e = calls w @ new \<and> (length new = i \<or> length new = i + 1)
            \<and> (\<forall>c\<in>set new. fst c = Extract))"
proof -
  let ?self0 = "self\<lparr>chunks_data := Some []\<rparr>"
  let ?w1 = "print_token_counts self 0 chunks w"
  have split: "chunks = take i chunks @ chunks ! i # drop (Suc i) chunks"
    using i by (simp add: id_take_nth_drop)
  have "extract_loop ?self0 l a (take i chunks @ chunks ! i # drop (Suc i) chunks) JNull ?w1
          = (Inl e, self_i, w_e)"
    unfolding extract_loop_append using before fails by simp
  then have loop: "extract_loop ?self0 l a chunks JNull ?w1 = (Inl e, self_i, w_e)"
    using split by simp
  obtain sp' where sp': "system_prompt self = Some sp'"
    using sp by auto
  obtain pt' where pt': "prompt_template self = Some pt'"
    using pt by auto
  have run: "run self l content a w = (Inl e, self_i, w_e)"
    using sp' pt' cd multi loop by (simp add: run_def)
  have "system_prompt ?self0 = Some sp'" and "chunks_data ?self0 = Some []"
    using sp' by simp_all
  from extract_loop_success [OF before this]
  obtain rs new where lnew: "length new = length (take i chunks)"
    and w_i: "w_i = ?w1\<lparr>calls := calls ?w1 @ new\<rparr>"
    and each: "\<forall>k<length (take i chunks). \<exists>b h. new ! k = (Extract, [SystemMessage sp', HumanMessage h])"
    by blast
  have li: "length new = i" using lnew i by simp
  have tags: "\<forall>c\<in>set new. fst c = Extract"
  proof
    fix c assume "c \<in> set new"
    then obtain k where "k < length new" and "new ! k = c"
      by (auto simp add: in_set_conv_nth)
    with each lnew show "fst c = Extract" by fastforce
  qed
  have ci: "calls w_i = calls w @ new" using w_i by simp
  from extract_chunk_world [OF fails]
  have "calls w_e = calls w @ new \<or> (\<exists>m. calls w_e = calls w @ (new @ [(Extract, m)]))"
    using ci by auto
  then have "\<exists>new'. calls w_e = calls w @ new' \<and> (length new' = i \<or> length new' = i + 1)
            \<and> (\<forall>c\<in>set new'. fst c = Extract)"
  proof
    assume "calls w_e = calls w @ new"
    with li tags show ?thesis by blast
  next
    assume "\<exists>m. calls w_e = calls w @ (new @ [(Extract, m)])"
    then obtain m where m: "calls w_e = calls w @ (new @ [(Extract, m)])" by blast
    have "length (new @ [(Extract, m)]) = i + 1" using li by simp
    moreover have "\<forall>c\<in>set (new @ [(Extract, m)]). fst c = Extract" using tags by auto
    ultimately show ?thesis using m by blast
  qed
  with run show ?thesis by blast
qed

text \<open>
  The statement on three chunks, with a model that raises on its second request.
\<close>

theorem extraction_failure_aborts_run_witness:
  "create_documents demo_lib
     (text_splitter (demo_extractor [Inr ''A'', Inl (LibraryError ''boom''), Inr ''C'', Inr ''D'']))
     [''abc''] = Inr [Document ''a'', Document ''b'', Document ''c'']
   \<and> fst (run (demo_extractor [Inr ''A'', Inl (LibraryError ''boom''), Inr ''C'', Inr ''D''])
             demo_lib ''abc'' demo_attributes w0) = Inl (LibraryError ''boom'')
   \<and> map fst (calls (snd (snd (run (demo_extractor [Inr ''A'', Inl (LibraryError ''boom''), Inr ''C'', Inr ''D''])
                                    demo_lib ''abc'' demo_attributes w0)))) = [Extract, Extract]"
proof -
  let ?ex = "demo_extractor [Inr ''A'', Inl (LibraryError ''boom''), Inr ''C'', Inr ''D'']"
  let ?chunks = "[Document ''a'', Document ''b'', Document ''c'']"
  let ?run = "run ?ex demo_lib ''abc'' demo_attributes w0"
  let ?loop = "extract_loop (?ex\<lparr>chunks_data := Some []\<rparr>) demo_lib demo_attributes (take 1 ?chunks)
                 JNull (print_token_counts ?ex 0 ?chunks w0)"
  let ?prev = "JArr [row ''zero'' (JStr ''123'')]"
  let ?step = "extract_chunk (fst (snd ?loop)) demo_lib (document_str demo_lib (?chunks ! 1))
                 demo_attributes ?prev (snd (snd ?loop))"
  have sp: "system_prompt ?ex \<noteq> None" and pt: "prompt_template ?ex \<noteq> None"
    and cd: "create_documents demo_lib (text_splitter ?ex) [''abc''] = Inr ?chunks"
    and multi: "1 < length ?chunks" and i: "1 < length ?chunks"
    by (simp_all add: demo_defs)
  have "fst ?loop = Inr ?prev"
    by (simp add: run_defs demo_defs)
  then have before: "?loop = (Inr ?prev, fst (snd ?loop), snd (snd ?loop))"
    by (metis prod.collapse)
  have "fst ?step = Inl (LibraryError ''boom'')"
    by (simp add: run_defs demo_defs)
  then have fails: "?step = (Inl (LibraryError ''boom''), snd ?step)"
    by (metis prod.collapse)
  from extraction_failure_aborts_run [OF sp pt cd multi i before fails]
  have run: "?run = (Inl (LibraryError ''boom''), fst (snd ?loop), snd ?step)"
    by blast
  have "map fst (calls (snd ?step)) = [Extract, Extract]"
    by (simp add: run_defs demo_defs)
  with run cd show ?thesis by simp
qed

subsection \<open>C5: missing configuration\<close>

text \<open>
  C5, as the code has it. When \<^verbatim>\<open>system_prompt\<close> or \<^verbatim>\<open>prompt_template\<close> is
  \<^verbatim>\<open>None\<close>, \<^verbatim>\<open>run\<close> raises \<^verbatim>\<open>ValueError\<close> with the object and the world
  untouched (no request sent, nothing printed), whatever the splitter, the parser and
  the schema are. The schema itself is never tested.
\<close>

theorem missing_prompt_fails_fast:
  assumes "system_prompt self = None \<or> prompt_template self = None"
  shows "run self l content attributes w =
           (Inl (ValueError (if system_prompt self = None
                             then ''system_prompt is not defined for this extractor''
                             else ''prompt_template is not defined for this extractor'')),
            self, w)"
  using assms by (auto simp add: run_def)

text \<open>
  The statement on an extractor whose \<^verbatim>\<open>system_prompt\<close> is \<^verbatim>\<open>None\<close>, as in the base class.
\<close>

theorem missing_prompt_fails_fast_witness:
  "system_prompt ((demo_extractor [Inr ''A''])\<lparr>system_prompt := None\<rparr>) = None
   \<and> run ((demo_extractor [Inr ''A''])\<lparr>system_prompt := None\<rparr>) demo_lib ''ab'' demo_attributes w0 =
       (Inl (ValueError ''system_prompt is not defined for this extractor''),
        (demo_extractor [Inr ''A''])\<lparr>system_prompt := None\<rparr>, w0)"
  using missing_prompt_fails_fast
    [of "(demo_extractor [Inr ''A''])\<lparr>system_prompt := None\<rparr>" demo_lib "''ab''" demo_attributes w0]
  by simp

text \<open>
  C5 as stated also covers an absent attribute schema. With
  \<^verbatim>\<open>attributes\<close> \<^verbatim>\<open>None\<close>, and with an empty \<^verbatim>\<open>attributes\<close>, the run sends its request
  and returns the parsed reply.
\<close>

theorem absent_schema_reaches_model:
  "fst (run (demo_extractor [Inr ''A'']) demo_lib ''a'' JNull w0) = Inr (JArr [row ''zero'' (JStr ''123'')])
   \<and> map fst (calls (snd (snd (run (demo_extractor [Inr ''A'']) demo_lib ''a'' JNull w0)))) = [Extract]
   \<and> fst (run (demo_extractor [Inr ''A'']) demo_lib ''a'' (JObj []) w0) = Inr (JArr [row ''zero'' (JStr ''123'')])
   \<and> map fst (calls (snd (snd (run (demo_extractor [Inr ''A'']) demo_lib ''a'' (JObj []) w0)))) = [Extract]"
  by (simp add: run_defs demo_defs)

subsection \<open>C6: the configured overlap\<close>

text \<open>
  C6. For every \<^verbatim>\<open>chunk_size\<close> given to the constructor, the splitter is built with
  \<^verbatim>\<open>chunk_overlap\<close> equal to the floor of \<^verbatim>\<open>chunk_size / 3\<close>, with that
  \<^verbatim>\<open>chunk_size\<close>, and with one length function, the token counter, for both.
\<close>

theorem overlap_is_floor_third:
  "chunk_overlap (text_splitter (ChunksTabularExtractor_init l m n tc conv)) = \<lfloor>real_of_int n / 3\<rfloor>
   \<and> chunk_size (text_splitter (ChunksTabularExtractor_init l m n tc conv)) = n
   \<and> length_function (text_splitter (ChunksTabularExtractor_init l m n tc conv)) =
       (case tc of None \<Rightarrow> count_tokens l | Some f \<Rightarrow> f)"
proof -
  have "n div 3 = \<lfloor>real_of_int n / 3\<rfloor>"
    using floor_divide_of_int_eq [of n 3, where ?'a = real] by simp
  then show ?thesis
    by (simp add: ChunksTabularExtractor_init_def overlap_factor_def)
qed

text \<open>
  The default \<^verbatim>\<open>chunk_size\<close> of 100000 gives an overlap of 33333.
\<close>

theorem overlap_is_floor_third_witness:
  "chunk_overlap (text_splitter (demo_extractor [])) = 33333"
  using overlap_is_floor_third [of demo_lib "scripted_model []" 100000 None None]
  by (simp add: demo_extractor_def)

subsection \<open>C7: state kept on the object\<close>

text \<open>
  C7, as the code has it. A run never reads what an earlier run left in
  \<^verbatim>\<open>self.chunks_data\<close>: whatever is stored there beforehand, the result and the world
  afterwards (requests sent, lines printed) are the same; and \<^verbatim>\<open>chunks_data\<close> is the
  only attribute of the object a run changes.
\<close>

theorem run_ignores_stored_chunks_data:
  "fst (run (self\<lparr>chunks_data := d\<rparr>) l content attributes w) = fst (run self l content attributes w)
   \<and> snd (snd (run (self\<lparr>chunks_data := d\<rparr>) l content attributes w)) =
       snd (snd (run self l content attributes w))
   \<and> (fst (snd (run self l content attributes w)))\<lparr>chunks_data := x\<rparr> = self\<lparr>chunks_data := x\<rparr>"
proof -
  have a: "fst (run (self\<lparr>chunks_data := d\<rparr>) l content attributes w) = fst (run self l content attributes w)"
    by (simp add: run_def Let_def split: sum.splits prod.splits list.splits)
  have b: "snd (snd (run (self\<lparr>chunks_data := d\<rparr>) l content attributes w)) =
       snd (snd (run self l content attributes w))"
    by (simp add: run_def Let_def split: sum.splits prod.splits list.splits)
  have c: "(fst (snd (run self l content attributes w)))\<lparr>chunks_data := x\<rparr> = self\<lparr>chunks_data := x\<rparr>"
    by (auto simp add: run_def Let_def  split: sum.splits prod.splits list.splits dest: extract_loop_frame [where x = x])
  from a b c show ?thesis by blast
qed

text \<open>
  The statement on a single-window run of an extractor that holds an earlier result.
\<close>

theorem run_ignores_stored_chunks_data_witness:
  "fst (run ((demo_extractor [Inr ''A''])\<lparr>chunks_data := Some [JArr [row ''third'' JNull]]\<rparr>)
          demo_lib ''a'' demo_attributes w0) =
     fst (run (demo_extractor [Inr ''A'']) demo_lib ''a'' demo_attributes w0)
   \<and> snd (snd (run ((demo_extractor [Inr ''A''])\<lparr>chunks_data := Some [JArr [row ''third'' JNull]]\<rparr>)
                  demo_lib ''a'' demo_attributes w0)) =
       snd (snd (run (demo_extractor [Inr ''A'']) demo_lib ''a'' demo_attributes w0))
   \<and> (fst (snd (run (demo_extractor [Inr ''A'']) demo_lib ''a'' demo_attributes w0)))\<lparr>chunks_data := None\<rparr> =
       (demo_extractor [Inr ''A''])\<lparr>chunks_data := None\<rparr>"
  by (rule run_ignores_stored_chunks_data)

text \<open>
  C7 as stated says no PartialResults stay on the object after \<^verbatim>\<open>run\<close> returns. After
  a two-window run of a freshly built extractor, \<^verbatim>\<open>chunks_data\<close> holds both of them.
\<close>

theorem partial_results_stay_on_object:
  "chunks_data (demo_extractor [Inr ''A'', Inr ''C'', Inr ''D'']) = None
   \<and> fst (run (demo_extractor [Inr ''A'', Inr ''C'', Inr ''D'']) demo_lib ''ab'' demo_attributes w0) =
       Inr (JArr [row ''zero'' (JStr ''123''), row ''first'' (JStr ''100''),
                  row ''second'' (JStr ''200''), row ''third'' (JStr ''999'')])
   \<and> chunks_data (fst (snd (run (demo_extractor [Inr ''A'', Inr ''C'', Inr ''D'']) demo_lib ''ab''
                                demo_attributes w0))) =
       Some [JArr [row ''zero'' (JStr ''123'')], JArr [row ''third'' (JStr ''400'')]]"
  by (simp add: run_defs demo_defs)

subsection \<open>C8: what the merged result is\<close>

text \<open>
  C8, as the code has it. The result of a multi-window run is what the model's reply to
  the merge request parses to, and nothing else. The requests added to the log are one
  \<open>Extract\<close> request per window, in window order, and then the merge request, the only
  one tagged \<open>Merge\<close>; PartialResult \<open>i\<close> is the parsed reply to the request of
  window \<open>i\<close>; the merge request is made of the system merge prompt and of the merge
  template filled with the schema and with the serialisations of all PartialResults,
  concatenated in window order; and the result is the parsed reply to that request,
  sent after all the others. The code compares no field values itself.
\<close>

theorem merged_result_is_model_reply:
  assumes "system_prompt self = Some sp" and "prompt_template self \<noteq> None"
    and "create_documents l (text_splitter self) [content] = Inr chunks"
    and "1 < length chunks"
    and "run self l content a w = (Inr out, self', w')"
  shows "\<exists>rs new hm. length rs = length chunks \<and> length new = length chunks
     \<and> chunks_data self' = Some rs
     \<and> (\<forall>i<length chunks. \<exists>b h.
           human_msg self l (document_str l (chunks ! i)) a (if i = 0 then JNull else rs ! (i - 1)) = Inr (b, h)
           \<and> new ! i = (Extract, [SystemMessage sp, HumanMessage h])
           \<and> reply self l (calls w @ take i new) [SystemMessage sp, HumanMessage h] = Inr (rs ! i))
     \<and> str_format (prompt_merge_template self)
           [(''elements'', json_dumps l a),
            (''jsons_list'',
             concat (map (\<lambda>d. ''``` \<newline>'' @ json_dumps l d @ ''\<newline> ```\<newline>'') rs))] = Inr hm
     \<and> calls w' = calls w @ new @
          [(Merge, [SystemMessage (system_merge_prompt self), HumanMessage hm])]
     \<and> reply self l (calls w @ new) [SystemMessage (system_merge_prompt self), HumanMessage hm] = Inr out"
proof -
  from run_multi_success [OF assms]
  obtain rs new hm where lrs: "length rs = length chunks" and lnew: "length new = length chunks"
    and self': "self' = self\<lparr>chunks_data := Some rs\<rparr>"
    and w': "w' = (print_token_counts self 0 chunks w)
              \<lparr>calls := calls w @ new @
                 [(Merge, [SystemMessage (system_merge_prompt self), HumanMessage hm])]\<rparr>"
    and each: "\<forall>i<length chunks. \<exists>b h.
           human_msg self l (document_str l (chunks ! i)) a ((JNull # rs) ! i) = Inr (b, h)
           \<and> new ! i = (Extract, [SystemMessage sp, HumanMessage h])
           \<and> reply self l (calls w @ take i new) [SystemMessage sp, HumanMessage h] = Inr (rs ! i)"
    and hm: "str_format (prompt_merge_template self)
           [(''elements'', json_dumps l a), (''jsons_list'', jsons_list l rs)] = Inr hm"
    and rp: "reply self l (calls w @ new) [SystemMessage (system_merge_prompt self), HumanMessage hm] = Inr out"
    by blast
  have nth: "(JNull # rs) ! i = (if i = 0 then JNull else rs ! (i - 1))" for i
    by (cases i) simp_all
  have "chunks_data self' = Some rs" using self' by simp
  moreover have "calls w' = calls w @ new @
          [(Merge, [SystemMessage (system_merge_prompt self), HumanMessage hm])]"
    using w' by simp
  ultimately show ?thesis
    using lrs lnew each hm rp unfolding nth jsons_list_def by blast
qed

text \<open>
  The statement on a document of two chunks, with the class's own system merge prompt.
\<close>

theorem merged_result_is_model_reply_witness:
  "create_documents demo_lib (text_splitter (demo_extractor [Inr ''D'', Inr ''C'', Inr ''D''])) [''ab'']
     = Inr [Document ''a'', Document ''b'']
   \<and> fst (run (demo_extractor [Inr ''D'', Inr ''C'', Inr ''D'']) demo_lib ''ab'' demo_attributes w0) =
       Inr (JArr [row ''zero'' (JStr ''123''), row ''first'' (JStr ''100''),
                  row ''second'' (JStr ''200''), row ''third'' (JStr ''999'')])
   \<and> (\<exists>sent hm. calls (snd (snd (run (demo_extractor [Inr ''D'', Inr ''C'', Inr ''D'']) demo_lib ''ab''
                                       demo_attributes w0))) =
                    sent @ [(Merge, [SystemMessage SYSTEM_MERGE_PROMPT_TEMPLATE, HumanMessage hm])]
         \<and> map fst sent = [Extract, Extract]
         \<and> reply (demo_extractor [Inr ''D'', Inr ''C'', Inr ''D'']) demo_lib sent
              [SystemMessage SYSTEM_MERGE_PROMPT_TEMPLATE, HumanMessage hm] =
            Inr (JArr [row ''zero'' (JStr ''123''), row ''first'' (JStr ''100''),
                       row ''second'' (JStr ''200''), row ''third'' (JStr ''999'')]))"
proof -
  let ?ex = "demo_extractor [Inr ''D'', Inr ''C'', Inr ''D'']"
  let ?run = "run ?ex demo_lib ''ab'' demo_attributes w0"
  let ?out = "JArr [row ''zero'' (JStr ''123''), row ''first'' (JStr ''100''),
                    row ''second'' (JStr ''200''), row ''third'' (JStr ''999'')]"
  have sp: "system_prompt ?ex = Some TABULAR_EXTRACTOR_SYSTEM_PROMPT"
    and pt: "prompt_template ?ex \<noteq> None"
    and cd: "create_documents demo_lib (text_splitter ?ex) [''ab''] = Inr [Document ''a'', Document ''b'']"
    and multi: "1 < length [Document ''a'', Document ''b'']"
    and smp: "system_merge_prompt ?ex = SYSTEM_MERGE_PROMPT_TEMPLATE"
    by (simp_all add: demo_defs)
  have out: "fst ?run = Inr ?out"
    by (simp add: run_defs demo_defs)
  then have ok: "?run = (Inr ?out, fst (snd ?run), snd (snd ?run))"
    by (metis prod.collapse)
  from merged_result_is_model_reply [OF sp pt cd multi ok]
  obtain rs new hm where ln: "length new = length [Document ''a'', Document ''b'']"
    and each: "\<forall>i<length [Document ''a'', Document ''b'']. \<exists>b h.
           human_msg ?ex demo_lib (document_str demo_lib ([Document ''a'', Document ''b''] ! i))
             demo_attributes (if i = 0 then JNull else rs ! (i - 1)) = Inr (b, h)
           \<and> new ! i = (Extract, [SystemMessage TABULAR_EXTRACTOR_SYSTEM_PROMPT, HumanMessage h])"
    and c: "calls (snd (snd ?run)) = calls w0 @ new @
          [(Merge, [SystemMessage (system_merge_prompt ?ex), HumanMessage hm])]"
    and rp: "reply ?ex demo_lib (calls w0 @ new)
               [SystemMessage (system_merge_prompt ?ex), HumanMessage hm] = Inr ?out"
    by blast
  have "\<forall>i<length new. fst (new ! i) = Extract"
    using each ln by fastforce
  then have "map fst new = replicate (length new) Extract"
    by (intro nth_equalityI) simp_all
  then have tags: "map fst new = [Extract, Extract]"
    using ln by (simp add: numeral_2_eq_2)
  have "calls (snd (snd ?run)) = new @ [(Merge, [SystemMessage SYSTEM_MERGE_PROMPT_TEMPLATE, HumanMessage hm])]"
    and "reply ?ex demo_lib new [SystemMessage SYSTEM_MERGE_PROMPT_TEMPLATE, HumanMessage hm] = Inr ?out"
    using c rp unfolding smp by (simp_all add: w0_def)
  with tags have ex: "\<exists>sent hm. calls (snd (snd ?run)) =
                    sent @ [(Merge, [SystemMessage SYSTEM_MERGE_PROMPT_TEMPLATE, HumanMessage hm])]
         \<and> map fst sent = [Extract, Extract]
         \<and> reply ?ex demo_lib sent [SystemMessage SYSTEM_MERGE_PROMPT_TEMPLATE, HumanMessage hm] = Inr ?out"
    by (intro exI [of _ new] exI [of _ hm] conjI)
  show ?thesis
    by (intro conjI) (rule cd, rule out, rule ex)
qed

text \<open>
  C8 as stated promises the non-null value in the merged record. Here window 1 gives the
  record with a null price, window 2 gives it with price 400, the model's merge reply
  keeps the null, and so does the FinalResult.
\<close>

theorem merge_can_keep_null:
  "chunks_data (fst (snd (run (demo_extractor [Inr ''B'', Inr ''C'', Inr ''B'']) demo_lib ''ab''
                             demo_attributes w0))) =
     Some [JArr [row ''third'' JNull], JArr [row ''third'' (JStr ''400'')]]
   \<and> fst (run (demo_extractor [Inr ''B'', Inr ''C'', Inr ''B'']) demo_lib ''ab'' demo_attributes w0) =
       Inr (JArr [row ''third'' JNull])"
  by (simp add: run_defs demo_defs)

subsection \<open>C9: no window at all\<close>

text \<open>
  C9. When the splitter returns no chunk, \<^verbatim>\<open>run\<close> raises \<^verbatim>\<open>IndexError\<close> from
  \<^verbatim>\<open>chunks[0]\<close>; the object and the world are untouched, so no request was sent.
\<close>

theorem zero_windows_index_error:
  assumes "system_prompt self \<noteq> None" and "prompt_template self \<noteq> None"
    and "create_documents l (text_splitter self) [content] = Inr []"
  shows "run self l content attributes w = (Inl IndexError, self, w)"
  using assms by (simp add: run_def)

text \<open>
  The statement on the empty document, which the splitter used here cuts into no chunk.
\<close>

theorem zero_windows_index_error_witness:
  "run (ChunksTabularExtractor_init (stub_lib []) (scripted_model []) 100000 None None)
       (stub_lib []) '''' (JObj [(''name'', JStr ''the name'')]) w0
   = (Inl IndexError, ChunksTabularExtractor_init (stub_lib []) (scripted_model []) 100000 None None, w0)"
  by (rule zero_windows_index_error)
     (simp_all add: ChunksTabularExtractor_init_def stub_lib_def)

subsection \<open>C10: an empty previous result\<close>

text \<open>
  C10. With the empty list as \<^verbatim>\<open>previous_data\<close>, \<^verbatim>\<open>extract\<close> does exactly what it
  does with \<^verbatim>\<open>None\<close>: the prompt is the fresh template filled with the chunk and the
  schema. And for no \<^verbatim>\<open>previous_data\<close> at all does the prompt come from the branch that
  sets \<^verbatim>\<open>previous_tail = "[]"\<close>.
\<close>

theorem empty_previous_is_fresh:
  "human_msg self l md a (JArr []) = human_msg self l md a JNull
   \<and> extract_chunk self l md a (JArr []) w = extract_chunk self l md a JNull w
   \<and> (\<forall>t. prompt_template self = Some t \<longrightarrow>
         human_msg self l md a (JArr []) =
           (case str_format t [(''markdown'', md), (''elements'', json_dumps l a)] of
              Inl e \<Rightarrow> Inl e
            | Inr h \<Rightarrow> Inr (Fresh, h)))
   \<and> (\<forall>previous_data h. human_msg self l md a previous_data \<noteq> Inr (EmptyTail, h))"
proof -
  have same: "human_msg self l md a (JArr []) = human_msg self l md a JNull"
    by (simp add: human_msg_def)
  have call: "extract_chunk self l md a (JArr []) w = extract_chunk self l md a JNull w"
    by (simp add: extract_chunk_def same)
  have fresh: "\<forall>t. prompt_template self = Some t \<longrightarrow>
         human_msg self l md a (JArr []) =
           (case str_format t [(''markdown'', md), (''elements'', json_dumps l a)] of
              Inl e \<Rightarrow> Inl e
            | Inr h \<Rightarrow> Inr (Fresh, h))"
    by (simp add: human_msg_def)
  have dead: "human_msg self l md a previous_data \<noteq> Inr (EmptyTail, h)" for previous_data h
    by (cases previous_data)
       (auto simp add: human_msg_def Let_def split: option.splits sum.splits if_splits)
  from same call fresh dead show ?thesis by blast
qed

text \<open>
  The statement on the class's own templates.
\<close>

theorem empty_previous_is_fresh_witness:
  "prompt_template (demo_extractor []) = Some SIMPLE_EXTRACTOR_PROMPT_TEMPLATE
   \<and> human_msg (demo_extractor []) demo_lib ''md'' demo_attributes (JArr []) =
       (case str_format SIMPLE_EXTRACTOR_PROMPT_TEMPLATE
               [(''markdown'', ''md''), (''elements'', stub_dumps demo_attributes)] of
          Inl e \<Rightarrow> Inl e
        | Inr h \<Rightarrow> Inr (Fresh, h))
   \<and> human_msg (demo_extractor []) demo_lib ''md'' demo_attributes (JObj []) \<noteq> Inr (EmptyTail, ''[]'')"
proof -
  have pt: "prompt_template (demo_extractor []) = Some SIMPLE_EXTRACTOR_PROMPT_TEMPLATE"
    by (simp add: demo_extractor_def ChunksTabularExtractor_init_def)
  have dl: "json_dumps demo_lib = stub_dumps"
    by (simp add: demo_lib_def stub_lib_def)
  show ?thesis
    using empty_previous_is_fresh [of "demo_extractor []" demo_lib "''md''" demo_attributes w0] pt
    unfolding dl by blast
qed

end
